theory Spec2Isabelle
  imports Complex_Main
begin

section \<open>Python values, exceptions and dictionaries\<close>

text \<open>
  The pipeline passes untyped dictionaries between its stages, so the values a dictionary
  can hold are one datatype. A Python float is modelled by the real number it denotes
  (the non-finite floats are outside the model), and the float arithmetic of the average,
  \<open>sum\<close> and \<open>/\<close>, is the library's: both are parameters. A \<open>datetime\<close> is modelled by
  its calendar fields. A JSON object, which is a value itself, is an association list read
  with \<open>map_of\<close>; the dictionaries the pipeline builds are maps from keys to values.
\<close>

datatype pyval =
    PNone
  | PBool bool
  | PInt int
  | PFloat real
  | PStr string
  | PDateTime int int int
  | PList "pyval list"
  | PDict "(string \<times> pyval) list"

text \<open>
  The exception classes that occur. \<open>ApiError\<close> stands for whatever a remote
  collaborator (classifier, bank feed) raises; all of them derive from \<open>Exception\<close>.
\<close>

datatype error =
    TypeError
  | ValueError
  | AttributeError
  | KeyError
  | IndexError
  | JSONDecodeError
  | OverflowError
  | IntegrityError
  | HttpError
  | ApiError

type_synonym pydict = "string \<rightharpoonup> pyval"

definition dict_get :: "pydict \<Rightarrow> string \<Rightarrow> pyval \<Rightarrow> pyval" where
  \<comment> \<open>\<open>d.get(k, default)\<close>\<close>
  "dict_get d k dflt = (case d k of None \<Rightarrow> dflt | Some v \<Rightarrow> v)"

definition dict_index :: "pydict \<Rightarrow> string \<Rightarrow> error + pyval" where
  \<comment> \<open>\<open>d[k]\<close>, which raises \<open>KeyError\<close> on a missing key\<close>
  "dict_index d k = (case d k of None \<Rightarrow> Inl KeyError | Some v \<Rightarrow> Inr v)"

definition obj_get :: "pyval \<Rightarrow> string \<Rightarrow> pyval \<Rightarrow> error + pyval" where
  \<comment> \<open>\<open>result.get(k, default)\<close> on a parsed JSON value: only a dict has \<open>get\<close>\<close>
  "obj_get v k dflt =
     (case v of
        PDict kvs \<Rightarrow> Inr (case map_of kvs k of None \<Rightarrow> dflt | Some x \<Rightarrow> x)
      | _ \<Rightarrow> Inl AttributeError)"

section \<open>The string operations the categorizer uses\<close>

text \<open>
  Strings are ASCII here: \<open>str.lower\<close> maps the 26 capital letters and leaves every other
  character alone, and \<open>str.strip\<close> removes the ASCII white space.
\<close>

definition lower_char :: "char \<Rightarrow> char" where
  "lower_char c =
     (case map_of (zip ''ABCDEFGHIJKLMNOPQRSTUVWXYZ'' ''abcdefghijklmnopqrstuvwxyz'') c of
        None \<Rightarrow> c
      | Some d \<Rightarrow> d)"

definition lower :: "string \<Rightarrow> string" where
  "lower s = map lower_char s"

definition starts_with :: "string \<Rightarrow> string \<Rightarrow> bool" where
  \<comment> \<open>\<open>s.startswith(p)\<close>\<close>
  "starts_with p s = (take (length p) s = p)"

fun contains :: "string \<Rightarrow> string \<Rightarrow> bool" where
  \<comment> \<open>\<open>sub in s\<close> on strings\<close>
  "contains sub [] = (sub = [])"
| "contains sub (c # cs) = (starts_with sub (c # cs) \<or> contains sub cs)"

fun split_head :: "string \<Rightarrow> string \<Rightarrow> string" where
  \<comment> \<open>\<open>s.split(sep)[0]\<close>: the text before the first \<open>sep\<close>, all of \<open>s\<close> without one\<close>
  "split_head sep [] = []"
| "split_head sep (c # cs) =
     (if starts_with sep (c # cs) then [] else c # split_head sep cs)"

fun split_rest :: "string \<Rightarrow> string \<Rightarrow> string option" where
  \<comment> \<open>the text after the first \<open>sep\<close>, if there is one\<close>
  "split_rest sep [] = None"
| "split_rest sep (c # cs) =
     (if starts_with sep (c # cs) then Some (drop (length sep) (c # cs))
      else split_rest sep cs)"

definition split_second :: "string \<Rightarrow> string \<Rightarrow> error + string" where
  \<comment> \<open>\<open>s.split(sep)[1]\<close>, an \<open>IndexError\<close> when \<open>s\<close> has no \<open>sep\<close>\<close>
  "split_second sep s =
     (case split_rest sep s of
        None \<Rightarrow> Inl IndexError
      | Some r \<Rightarrow> Inr (split_head sep r))"

definition is_space :: "char \<Rightarrow> bool" where
  "is_space c = ((of_char c :: nat) \<in> {9, 10, 11, 12, 13, 28, 29, 30, 31, 32})"

definition strip :: "string \<Rightarrow> string" where
  "strip s = rev (dropWhile is_space (rev (dropWhile is_space s)))"

fun re_search_object :: "string \<Rightarrow> string option" where
  \<comment> \<open>\<open>re.search(r'\{[^}]+\}', s)\<close>: the leftmost opening brace that is followed by at
      least one character other than a closing brace and then by a closing brace\<close>
  "re_search_object [] = None"
| "re_search_object (c # cs) =
     (if c = CHR ''{'' \<and> takeWhile (\<lambda>x. x \<noteq> CHR ''}'') cs \<noteq> []
           \<and> dropWhile (\<lambda>x. x \<noteq> CHR ''}'') cs \<noteq> []
      then Some (c # takeWhile (\<lambda>x. x \<noteq> CHR ''}'') cs @ ''}'')
      else re_search_object cs)"

section \<open>The categorization service (gemini_client.py)\<close>

definition CATEGORIES :: "string list" where
  "CATEGORIES =
     [''Food & Dining'', ''Shopping'', ''Transportation'', ''Bills & Utilities'',
      ''Entertainment'', ''Healthcare'', ''Travel'', ''Education'', ''Personal Care'',
      ''Home & Garden'', ''Gifts & Donations'', ''Business Expenses'', ''Other'']"

fun closest_in :: "string \<Rightarrow> string list \<Rightarrow> string option" where
  \<comment> \<open>the loop of \<open>_find_closest_category\<close> over the categories still to try\<close>
  "closest_in category_lower [] = None"
| "closest_in category_lower (cat # cats) =
     (if contains category_lower (lower cat) \<or> contains (lower cat) category_lower
      then Some cat
      else closest_in category_lower cats)"

definition find_closest_category :: "pyval \<Rightarrow> error + string option" where
  \<comment> \<open>\<open>category.lower()\<close> exists on a string only\<close>
  "find_closest_category category =
     (case category of
        PStr s \<Rightarrow> Inr (closest_in (lower s) CATEGORIES)
      | _ \<Rightarrow> Inl AttributeError)"

text \<open>
  What the program takes from outside the repository, fixed for one run: the Python
  library's JSON parser and conversions between values and text, the classifier, the
  bank feed's answer and the outcome of each request to the spreadsheet service. The
  classifier answers the \<open>n\<close>-th request with a text or with an exception, so that
  two requests with the same prompt may be answered differently.
\<close>

record plaid_transaction =
  plaid_transaction_id :: string
  plaid_account_id :: string
  plaid_amount :: real
  plaid_date :: string
  plaid_name :: string
  plaid_merchant_name :: "pyval option"
  plaid_original_description :: "pyval option"
  plaid_pending :: "pyval option"
  plaid_category :: "pyval option"
  plaid_category_id :: "pyval option"

record env =
  json_loads :: "string \<Rightarrow> pyval option"
  float_of_str :: "string \<Rightarrow> real option"
  float_sum :: "real list \<Rightarrow> real"
  float_div :: "real \<Rightarrow> real \<Rightarrow> real"
  py_str :: "pyval \<Rightarrow> string"
  format_2f :: "real \<Rightarrow> string"
  strptime :: "string \<Rightarrow> (int \<times> int \<times> int) option"
  strftime :: "int \<Rightarrow> int \<Rightarrow> int \<Rightarrow> string"
  generate_content :: "nat \<Rightarrow> string \<Rightarrow> error + string"
  access_token :: string
  transactions_get :: "error + plaid_transaction list"
  spreadsheet_id :: "string option"
  ensure_sheet :: "error option"
  values_clear :: "error option"
  values_update :: "error option"

definition str_of :: "env \<Rightarrow> pyval \<Rightarrow> string" where
  \<comment> \<open>a value inside an f-string: a string as it is, anything else as the library prints it\<close>
  "str_of lib v = (case v of PStr s \<Rightarrow> s | _ \<Rightarrow> py_str lib v)"

fun join :: "string \<Rightarrow> string list \<Rightarrow> string" where
  \<comment> \<open>\<open>sep.join(xs)\<close>\<close>
  "join sep [] = []"
| "join sep [x] = x"
| "join sep (x # y # ys) = x @ sep @ join sep (y # ys)"

definition prompt_template :: string where
  "prompt_template =
     ''You are an expert financial transaction categorizer. \<newline>'' @
     ''Analyze the following transaction and categorize it accurately.\<newline>\<newline>'' @
     ''Available categories: '' @ join '', '' CATEGORIES @ ''\<newline>\<newline>'' @
     ''For each transaction, provide:\<newline>'' @
     ''1. Primary category (one of the categories above)\<newline>'' @
     ''2. Subcategory (more specific, e.g., \"Groceries\" under \"Food & Dining\")\<newline>'' @
     ''3. Confidence score (0.0 to 1.0)\<newline>\<newline>'' @
     ''Return your response as a JSON object with this exact format:\<newline>'' @
     ''{\<newline>'' @
     ''    \"primary_category\": \"category name\",\<newline>'' @
     ''    \"subcategory\": \"specific subcategory\",\<newline>'' @
     ''    \"confidence\": 0.95\<newline>'' @
     ''}\<newline>\<newline>'' @
     ''Transaction details:\<newline>''"

definition too_large_for_float :: "int \<Rightarrow> bool" where
  \<comment> \<open>the integers that round to no finite double: converting one raises
      \<open>OverflowError\<close>\<close>
  "too_large_for_float i = (2 ^ 1024 - 2 ^ 970 \<le> \<bar>i\<bar>)"

definition abs_amount :: "pyval \<Rightarrow> error + real" where
  \<comment> \<open>\<open>abs(x)\<close> as the number that \<open>:.2f\<close> then prints; \<open>abs\<close> of anything but a
      number is a \<open>TypeError\<close>, and printing an integer converts it to a float\<close>
  "abs_amount v =
     (case v of
        PInt i \<Rightarrow> (if too_large_for_float i then Inl OverflowError else Inr (of_int \<bar>i\<bar>))
      | PFloat r \<Rightarrow> Inr \<bar>r\<bar>
      | PBool b \<Rightarrow> Inr (if b then 1 else 0)
      | _ \<Rightarrow> Inl TypeError)"

definition transaction_desc :: "env \<Rightarrow> pydict \<Rightarrow> error + string" where
  "transaction_desc lib transaction =
     (case abs_amount (dict_get transaction ''amount'' (PInt 0)) of
        Inl e \<Rightarrow> Inl e
      | Inr a \<Rightarrow>
          Inr (''\<newline>Name: '' @ str_of lib (dict_get transaction ''name'' (PStr ''Unknown'')) @
               ''\<newline>Amount: $'' @ format_2f lib a @
               ''\<newline>Merchant: '' @
                 str_of lib (dict_get transaction ''merchant_name'' (PStr ''N/A'')) @
               ''\<newline>Description: '' @
                 str_of lib (dict_get transaction ''description'' (PStr ''N/A'')) @
               ''\<newline>Date: '' @ str_of lib (dict_get transaction ''date'' (PStr ''N/A'')) @
               ''\<newline>''))"

definition extract_json_text :: "string \<Rightarrow> error + string" where
  \<comment> \<open>the response without its fenced code block, if it has one\<close>
  "extract_json_text response_text =
     (if contains ''```json'' response_text then
        (case split_second ''```json'' response_text of
           Inl e \<Rightarrow> Inl e
         | Inr p \<Rightarrow> Inr (strip (split_head ''```'' p)))
      else if contains ''```'' response_text then
        (case split_second ''```'' response_text of
           Inl e \<Rightarrow> Inl e
         | Inr p \<Rightarrow> Inr (strip (split_head ''```'' p)))
      else Inr response_text)"

definition parse_json :: "env \<Rightarrow> string \<Rightarrow> error + pyval" where
  \<comment> \<open>\<open>json.loads\<close>, and on a \<open>JSONDecodeError\<close> the first brace-delimited piece\<close>
  "parse_json lib response_text =
     (case json_loads lib response_text of
        Some result \<Rightarrow> Inr result
      | None \<Rightarrow>
          (case re_search_object response_text of
             Some json_match \<Rightarrow>
               (case json_loads lib json_match of
                  Some result \<Rightarrow> Inr result
                | None \<Rightarrow> Inl JSONDecodeError)
           | None \<Rightarrow> Inl ValueError))"

definition normalize_category :: "pyval \<Rightarrow> error + pyval" where
  \<comment> \<open>a category of the list stays; any other goes through
      \<open>_find_closest_category(c) or 'Other'\<close>\<close>
  "normalize_category primary_category =
     (if primary_category \<in> set (map PStr CATEGORIES) then Inr primary_category
      else
        (case find_closest_category primary_category of
           Inl e \<Rightarrow> Inl e
         | Inr None \<Rightarrow> Inr (PStr ''Other'')
         | Inr (Some cat) \<Rightarrow> Inr (PStr (if cat = [] then ''Other'' else cat))))"

definition py_float :: "env \<Rightarrow> pyval \<Rightarrow> error + real" where
  \<comment> \<open>\<open>float(x)\<close>\<close>
  "py_float lib v =
     (case v of
        PFloat r \<Rightarrow> Inr r
      | PInt i \<Rightarrow> (if too_large_for_float i then Inl OverflowError else Inr (of_int i))
      | PBool b \<Rightarrow> Inr (if b then 1 else 0)
      | PStr s \<Rightarrow> (case float_of_str lib s of None \<Rightarrow> Inl ValueError | Some r \<Rightarrow> Inr r)
      | _ \<Rightarrow> Inl TypeError)"

definition validate_result :: "env \<Rightarrow> pyval \<Rightarrow> error + pydict" where
  \<comment> \<open>"Validate and normalize result" up to the \<open>return\<close> of the \<open>try\<close> block\<close>
  "validate_result lib result =
     (case obj_get result ''primary_category'' (PStr ''Other'') of
        Inl e \<Rightarrow> Inl e
      | Inr raw \<Rightarrow>
     (case normalize_category raw of
        Inl e \<Rightarrow> Inl e
      | Inr primary_category \<Rightarrow>
     (case obj_get result ''subcategory'' (PStr []) of
        Inl e \<Rightarrow> Inl e
      | Inr subcategory \<Rightarrow>
     (case obj_get result ''confidence'' (PFloat 0.5) of
        Inl e \<Rightarrow> Inl e
      | Inr c \<Rightarrow>
     (case py_float lib c of
        Inl e \<Rightarrow> Inl e
      | Inr confidence \<Rightarrow>
          Inr [''primary_category'' \<mapsto> primary_category,
               ''subcategory'' \<mapsto> subcategory,
               ''confidence'' \<mapsto> PFloat confidence])))))"

definition classifier_response :: "env \<Rightarrow> pydict \<Rightarrow> nat \<Rightarrow> error + string" where
  \<comment> \<open>the prompt, the call and \<open>response.text.strip()\<close>\<close>
  "classifier_response lib transaction n =
     (case transaction_desc lib transaction of
        Inl e \<Rightarrow> Inl e
      | Inr desc \<Rightarrow>
          (case generate_content lib n (prompt_template @ desc) of
             Inl e \<Rightarrow> Inl e
           | Inr response_text \<Rightarrow> Inr (strip response_text)))"

definition parse_response :: "env \<Rightarrow> string \<Rightarrow> error + pyval" where
  "parse_response lib response_text =
     (case extract_json_text response_text of
        Inl e \<Rightarrow> Inl e
      | Inr t \<Rightarrow> parse_json lib t)"

definition categorize_try :: "env \<Rightarrow> pydict \<Rightarrow> nat \<Rightarrow> error + pydict" where
  \<comment> \<open>the \<open>try\<close> block of \<open>categorize_transaction\<close>\<close>
  "categorize_try lib transaction n =
     (case classifier_response lib transaction n of
        Inl e \<Rightarrow> Inl e
      | Inr response_text \<Rightarrow>
          (case parse_response lib response_text of
             Inl e \<Rightarrow> Inl e
           | Inr result \<Rightarrow> validate_result lib result))"

definition fallback :: pydict where
  "fallback =
     [''primary_category'' \<mapsto> PStr ''Other'',
      ''subcategory'' \<mapsto> PStr ''Uncategorized'',
      ''confidence'' \<mapsto> PFloat 0]"

definition requests_made :: "env \<Rightarrow> pydict \<Rightarrow> nat \<Rightarrow> nat" where
  \<comment> \<open>the classifier is called unless building the description already failed\<close>
  "requests_made lib transaction n =
     (case transaction_desc lib transaction of Inl e \<Rightarrow> n | Inr desc \<Rightarrow> Suc n)"

definition categorize_transaction ::
  "env \<Rightarrow> pydict \<Rightarrow> nat \<Rightarrow> (error + pydict) \<times> nat" where
  \<comment> \<open>\<open>except Exception\<close> turns every exception of the block into the default category;
      the second component counts the requests sent to the classifier so far\<close>
  "categorize_transaction lib transaction n =
     (case categorize_try lib transaction n of
        Inl e \<Rightarrow> (Inr fallback, requests_made lib transaction n)
      | Inr categorization \<Rightarrow> (Inr categorization, requests_made lib transaction n))"

fun categorize_batch ::
  "env \<Rightarrow> pydict list \<Rightarrow> nat \<Rightarrow> (error + pydict list) \<times> nat" where
  \<comment> \<open>\<open>results.append({**transaction, **categorization})\<close> for each transaction in turn\<close>
  "categorize_batch lib [] n = (Inr [], n)"
| "categorize_batch lib (transaction # transactions) n =
     (case categorize_transaction lib transaction n of
        (Inl e, n') \<Rightarrow> (Inl e, n')
      | (Inr categorization, n') \<Rightarrow>
          (case categorize_batch lib transactions n' of
             (Inl e, n'') \<Rightarrow> (Inl e, n'')
           | (Inr results, n'') \<Rightarrow> (Inr ((transaction ++ categorization) # results), n'')))"

definition merged_at :: "env \<Rightarrow> nat \<Rightarrow> pydict list \<Rightarrow> pydict list \<Rightarrow> nat \<Rightarrow> bool" where
  \<comment> \<open>element \<open>i\<close> of the results is transaction \<open>i\<close> updated with its categorization, which was
      asked for as request \<open>m\<close>\<close>
  "merged_at lib n txs rs i = (\<exists>c m. n \<le> m \<and> m \<le> n + i
            \<and> fst (categorize_transaction lib (txs ! i) m) = Inr c
            \<and> rs ! i = txs ! i ++ c)"

section \<open>The bank feed (plaid_client.py)\<close>

definition attr_or :: "pyval option \<Rightarrow> pyval \<Rightarrow> pyval" where
  \<comment> \<open>\<open>getattr(transaction, name, default)\<close>\<close>
  "attr_or a dflt = (case a of None \<Rightarrow> dflt | Some v \<Rightarrow> v)"

definition transaction_dict :: "env \<Rightarrow> plaid_transaction \<Rightarrow> error + pydict" where
  \<comment> \<open>the dictionary built for one transaction of the response; \<open>strptime\<close> raises
      \<open>ValueError\<close> on a date it cannot read\<close>
  "transaction_dict lib t =
     (case strptime lib (plaid_date t) of
        None \<Rightarrow> Inl ValueError
      | Some (y, m, d) \<Rightarrow>
          Inr [''transaction_id'' \<mapsto> PStr (plaid_transaction_id t),
               ''account_id'' \<mapsto> PStr (plaid_account_id t),
               ''amount'' \<mapsto> PFloat (plaid_amount t),
               ''date'' \<mapsto> PDateTime y m d,
               ''name'' \<mapsto> PStr (plaid_name t),
               ''merchant_name'' \<mapsto> attr_or (plaid_merchant_name t) PNone,
               ''description'' \<mapsto>
                 attr_or (plaid_original_description t) (PStr (plaid_name t)),
               ''is_pending'' \<mapsto> attr_or (plaid_pending t) (PBool False),
               ''category'' \<mapsto> attr_or (plaid_category t) PNone,
               ''category_id'' \<mapsto> attr_or (plaid_category_id t) PNone])"

fun transaction_list :: "env \<Rightarrow> plaid_transaction list \<Rightarrow> error + pydict list" where
  "transaction_list lib [] = Inr []"
| "transaction_list lib (t # ts) =
     (case transaction_dict lib t of
        Inl e \<Rightarrow> Inl e
      | Inr d \<Rightarrow>
          (case transaction_list lib ts of
             Inl e \<Rightarrow> Inl e
           | Inr ds \<Rightarrow> Inr (d # ds)))"

definition get_transactions :: "env \<Rightarrow> error + pydict list" where
  \<comment> \<open>the handler of \<open>get_transactions\<close> logs and raises again, so every exception of
      the request or of the conversion reaches the caller\<close>
  "get_transactions lib =
     (if access_token lib = [] then Inl ValueError
      else
        (case transactions_get lib of
           Inl e \<Rightarrow> Inl e
         | Inr ts \<Rightarrow> transaction_list lib ts))"

definition get_all_transactions_since :: "env \<Rightarrow> error + pydict list" where
  \<comment> \<open>\<open>days\<close> only sets the start date of the request that \<open>transactions_get\<close> answers\<close>
  "get_all_transactions_since lib = get_transactions lib"

section \<open>The transaction store (database.py)\<close>

text \<open>
  A row of the table \<open>transactions\<close>. The columns the database fills by itself (\<open>id\<close>,
  \<open>created_at\<close>, \<open>updated_at\<close>) are left out: the pipeline never reads them.
\<close>

record Transaction =
  transaction_id :: pyval
  account_id :: pyval
  amount :: pyval
  date :: pyval
  name :: pyval
  merchant_name :: pyval
  category :: pyval
  category_confidence :: pyval
  primary_category :: pyval
  subcategory :: pyval
  description :: pyval
  is_pending :: pyval
  synced_to_sheets :: bool

definition unique_ids :: "Transaction list \<Rightarrow> bool" where
  \<comment> \<open>\<open>transaction_id = Column(String, unique=True)\<close>; SQL's UNIQUE lets NULL repeat\<close>
  "unique_ids rows = distinct (filter (\<lambda>v. v \<noteq> PNone) (map transaction_id rows))"

definition commit :: "Transaction list \<Rightarrow> Transaction list \<Rightarrow> error + Transaction list" where
  \<comment> \<open>\<open>db.commit()\<close> with the rows that \<open>db.add\<close> registered: the session is made with
      \<open>autoflush=False\<close>, so the INSERTs run here, in one database transaction, and a
      violated constraint raises \<open>IntegrityError\<close> and leaves the table as it was\<close>
  "commit table pending =
     (if unique_ids (table @ pending) then Inr (table @ pending) else Inl IntegrityError)"

section \<open>The spreadsheet mirror (sheets_client.py)\<close>

definition headers :: "pyval list" where
  "headers =
     map PStr [''Date'', ''Name'', ''Merchant'', ''Amount'', ''Primary Category'',
               ''Subcategory'', ''Description'', ''Confidence'', ''Transaction ID'']"

definition date_cell :: "env \<Rightarrow> pyval \<Rightarrow> pyval" where
  \<comment> \<open>\<open>strftime('%Y-%m-%d')\<close> on a datetime, \<open>str\<close> on anything else\<close>
  "date_cell lib v =
     (case v of
        PDateTime y m d \<Rightarrow> PStr (strftime lib y m d)
      | _ \<Rightarrow> PStr (str_of lib v))"

definition sheet_row :: "env \<Rightarrow> pydict \<Rightarrow> pyval list" where
  "sheet_row lib tx =
     [date_cell lib (dict_get tx ''date'' (PStr [])),
      dict_get tx ''name'' (PStr []),
      dict_get tx ''merchant_name'' (PStr []),
      dict_get tx ''amount'' (PInt 0),
      dict_get tx ''primary_category'' (PStr []),
      dict_get tx ''subcategory'' (PStr []),
      dict_get tx ''description'' (PStr []),
      dict_get tx ''category_confidence'' (PInt 0),
      dict_get tx ''transaction_id'' (PStr [])]"

definition sync_transactions ::
  "env \<Rightarrow> pydict list \<Rightarrow> pyval list list \<Rightarrow> error option \<times> pyval list list" where
  \<comment> \<open>the exception raised, if any, and the cells of the sheet afterwards. Without a
      spreadsheet id the method returns before it sends anything; otherwise it makes
      sure the sheet exists, clears it and writes the header and one row per transaction\<close>
  "sync_transactions lib transactions cells =
     (if spreadsheet_id lib = None \<or> spreadsheet_id lib = Some [] then (None, cells)
      else
        (case ensure_sheet lib of
           Some e \<Rightarrow> (Some e, cells)
         | None \<Rightarrow>
             (case values_clear lib of
                Some e \<Rightarrow> (Some e, cells)
              | None \<Rightarrow>
                  (case values_update lib of
                     Some e \<Rightarrow> (Some e, [])
                   | None \<Rightarrow> (None, headers # map (sheet_row lib) transactions)))))"

section \<open>The ingestion pipeline (main.py)\<close>

text \<open>
  The state a run reads and changes: the committed rows of the table, the cells of the
  sheet \<open>Transactions\<close>, and the number of requests sent to the classifier so far.

  \<open>fetch_and_process_transactions\<close> is read with steps 2 to 5 inside its
  \<open>try ... finally: db.close()\<close>, which has no handler: an exception of the dictionary
  lookups or of \<open>db.commit()\<close> reaches the caller, while the two inner handlers keep the
  exceptions of a row's construction and of the spreadsheet push. Logging is not
  modelled, and the database is taken to answer its queries.
\<close>

record world =
  store :: "Transaction list"
  sheet :: "pyval list list"
  requests :: nat

fun new_of :: "pyval list \<Rightarrow> pydict list \<Rightarrow> error + pydict list" where
  \<comment> \<open>\<open>[tx for tx in transactions if tx['transaction_id'] not in existing_ids]\<close>\<close>
  "new_of existing_ids [] = Inr []"
| "new_of existing_ids (tx # txs) =
     (case dict_index tx ''transaction_id'' of
        Inl e \<Rightarrow> Inl e
      | Inr i \<Rightarrow>
          (case new_of existing_ids txs of
             Inl e \<Rightarrow> Inl e
           | Inr rest \<Rightarrow> Inr (if i \<notin> set existing_ids then tx # rest else rest)))"

definition number_of :: "pyval \<Rightarrow> real option" where
  "number_of v =
     (case v of
        PInt i \<Rightarrow> Some (of_int i)
      | PFloat r \<Rightarrow> Some r
      | PBool b \<Rightarrow> Some (if b then 1 else 0)
      | _ \<Rightarrow> None)"

fun numbers :: "pyval list \<Rightarrow> real list option" where
  "numbers [] = Some []"
| "numbers (v # vs) =
     (case number_of v of
        None \<Rightarrow> None
      | Some r \<Rightarrow> (case numbers vs of None \<Rightarrow> None | Some rs \<Rightarrow> Some (r # rs)))"

definition py_sum :: "env \<Rightarrow> pyval list \<Rightarrow> error + real" where
  \<comment> \<open>\<open>sum(...)\<close>: the library's sum of the numbers, in their order; adding anything that
      is not a number is a \<open>TypeError\<close>\<close>
  "py_sum lib vs =
     (case numbers vs of
        None \<Rightarrow> Inl TypeError
      | Some rs \<Rightarrow> Inr (float_sum lib rs))"

definition average_confidence :: "env \<Rightarrow> pydict list \<Rightarrow> error + pyval" where
  \<comment> \<open>\<open>sum(tx.get('confidence', 0) for tx in xs) / len(xs) if xs else 0\<close>\<close>
  "average_confidence lib xs =
     (if xs = [] then Inr (PInt 0)
      else
        (case py_sum lib (map (\<lambda>tx. dict_get tx ''confidence'' (PInt 0)) xs) of
           Inl e \<Rightarrow> Inl e
         | Inr s \<Rightarrow> Inr (PFloat (float_div lib s (real (length xs))))))"

definition make_row :: "env \<Rightarrow> pydict \<Rightarrow> error + Transaction" where
  \<comment> \<open>\<open>Transaction(...)\<close>: five keys are indexed and raise \<open>KeyError\<close> when missing, the
      others are read with \<open>get\<close>\<close>
  "make_row lib tx =
     (case dict_index tx ''transaction_id'' of Inl e \<Rightarrow> Inl e | Inr v1 \<Rightarrow>
     (case dict_index tx ''account_id'' of Inl e \<Rightarrow> Inl e | Inr v2 \<Rightarrow>
     (case dict_index tx ''amount'' of Inl e \<Rightarrow> Inl e | Inr v3 \<Rightarrow>
     (case dict_index tx ''date'' of Inl e \<Rightarrow> Inl e | Inr v4 \<Rightarrow>
     (case dict_index tx ''name'' of Inl e \<Rightarrow> Inl e | Inr v5 \<Rightarrow>
        Inr \<lparr>transaction_id = v1,
             account_id = v2,
             amount = v3,
             date = v4,
             name = v5,
             merchant_name = dict_get tx ''merchant_name'' PNone,
             category =
               PStr (str_of lib (dict_get tx ''primary_category'' (PStr ''Other'')) @ '' - '' @
                     str_of lib (dict_get tx ''subcategory'' (PStr []))),
             category_confidence = dict_get tx ''confidence'' (PFloat 0),
             primary_category = dict_get tx ''primary_category'' (PStr ''Other''),
             subcategory = dict_get tx ''subcategory'' (PStr []),
             description = dict_get tx ''description'' PNone,
             is_pending = dict_get tx ''is_pending'' (PBool False),
             synced_to_sheets = False\<rparr>)))))"

fun store_rows :: "env \<Rightarrow> pydict list \<Rightarrow> Transaction list \<times> nat" where
  \<comment> \<open>the loop of step 4: the rows registered with the session and \<open>stored_count\<close>; a row
      whose construction raises is logged and skipped\<close>
  "store_rows lib [] = ([], 0)"
| "store_rows lib (tx # txs) =
     (case make_row lib tx of
        Inl e \<Rightarrow> store_rows lib txs
      | Inr r \<Rightarrow> (r # fst (store_rows lib txs), Suc (snd (store_rows lib txs))))"

definition sheets_data :: "Transaction \<Rightarrow> pydict" where
  "sheets_data r =
     [''date'' \<mapsto> date r,
      ''name'' \<mapsto> name r,
      ''merchant_name'' \<mapsto> merchant_name r,
      ''amount'' \<mapsto> amount r,
      ''primary_category'' \<mapsto> primary_category r,
      ''subcategory'' \<mapsto> subcategory r,
      ''description'' \<mapsto> description r,
      ''category_confidence'' \<mapsto> category_confidence r,
      ''transaction_id'' \<mapsto> transaction_id r]"

definition mark_synced :: "Transaction \<Rightarrow> Transaction" where
  "mark_synced r = (if synced_to_sheets r then r else r\<lparr>synced_to_sheets := True\<rparr>)"

definition sync_step :: "env \<Rightarrow> world \<Rightarrow> nat \<times> world" where
  \<comment> \<open>the \<open>try\<close> block of step 5: \<open>synced_count\<close> and the state afterwards. An exception
      of \<open>sync_transactions\<close> is logged, and the rows are marked only when there was none\<close>
  "sync_step lib w =
     (let unsynced = filter (\<lambda>r. \<not> synced_to_sheets r) (store w) in
      if unsynced = [] then (0, w)
      else
        (case sync_transactions lib (map sheets_data unsynced) (sheet w) of
           (Some e, cells) \<Rightarrow> (0, w\<lparr>sheet := cells\<rparr>)
         | (None, cells) \<Rightarrow>
             (length unsynced, w\<lparr>store := map mark_synced (store w), sheet := cells\<rparr>)))"

definition hashable :: "pyval \<Rightarrow> bool" where
  "hashable v = (case v of PList xs \<Rightarrow> False | PDict kvs \<Rightarrow> False | _ \<Rightarrow> True)"

definition categories_used :: "pydict list \<Rightarrow> error + pyval" where
  \<comment> \<open>\<open>len(set(tx.get('primary_category', 'Other') for tx in xs))\<close>\<close>
  "categories_used xs =
     (let cs = map (\<lambda>tx. dict_get tx ''primary_category'' (PStr ''Other'')) xs in
      if list_all hashable cs then Inr (PInt (int (length (remdups cs))))
      else Inl TypeError)"

definition short_stats :: "nat \<Rightarrow> pydict" where
  \<comment> \<open>the dictionary of the two early returns\<close>
  "short_stats fetched =
     [''total_fetched'' \<mapsto> PInt (int fetched),
      ''new_transactions'' \<mapsto> PInt 0,
      ''categorized'' \<mapsto> PInt 0,
      ''synced_to_sheets'' \<mapsto> PInt 0]"

definition fetch_and_process_transactions ::
  "env \<Rightarrow> bool \<Rightarrow> world \<Rightarrow> (error + pydict) \<times> world" where
  \<comment> \<open>the statistics or the exception that reaches the caller, and the state afterwards\<close>
  "fetch_and_process_transactions lib sync_to_sheets w =
     (case get_all_transactions_since lib of
        Inl e \<Rightarrow> (Inl e, w)
      | Inr transactions \<Rightarrow>
     if transactions = [] then (Inr (short_stats 0), w)
     else
     (case new_of (map transaction_id (store w)) transactions of
        Inl e \<Rightarrow> (Inl e, w)
      | Inr new_transactions \<Rightarrow>
     if new_transactions = [] then (Inr (short_stats (length transactions)), w)
     else
     (case categorize_batch lib new_transactions (requests w) of
        (Inl e, n) \<Rightarrow> (Inl e, w\<lparr>requests := n\<rparr>)
      | (Inr categorized_transactions, n) \<Rightarrow>
     (case average_confidence lib categorized_transactions of
        Inl e \<Rightarrow> (Inl e, w\<lparr>requests := n\<rparr>)
      | Inr avg_confidence \<Rightarrow>
     (case commit (store w) (fst (store_rows lib categorized_transactions)) of
        Inl e \<Rightarrow> (Inl e, w\<lparr>requests := n\<rparr>)
      | Inr table \<Rightarrow>
     (let (synced_count, w') =
            (if sync_to_sheets \<and> categorized_transactions \<noteq> []
             then sync_step lib (w\<lparr>store := table, requests := n\<rparr>)
             else (0, w\<lparr>store := table, requests := n\<rparr>))
      in
        (case categories_used categorized_transactions of
           Inl e \<Rightarrow> (Inl e, w')
         | Inr used \<Rightarrow>
             (Inr [''total_fetched'' \<mapsto> PInt (int (length transactions)),
                   ''new_transactions'' \<mapsto> PInt (int (length new_transactions)),
                   ''categorized'' \<mapsto> PInt (int (length categorized_transactions)),
                   ''average_confidence'' \<mapsto> avg_confidence,
                   ''synced_to_sheets'' \<mapsto> PInt (int synced_count),
                   ''categories_used'' \<mapsto> used],
              w'))))))))"

definition print_summary :: "pydict \<Rightarrow> error + pyval list" where
  \<comment> \<open>the six \<open>stats[...]\<close> that \<open>main\<close> prints after a run, in the order it reads them\<close>
  "print_summary stats =
     (case dict_index stats ''total_fetched'' of Inl e \<Rightarrow> Inl e | Inr v1 \<Rightarrow>
     (case dict_index stats ''new_transactions'' of Inl e \<Rightarrow> Inl e | Inr v2 \<Rightarrow>
     (case dict_index stats ''categorized'' of Inl e \<Rightarrow> Inl e | Inr v3 \<Rightarrow>
     (case dict_index stats ''average_confidence'' of Inl e \<Rightarrow> Inl e | Inr v4 \<Rightarrow>
     (case dict_index stats ''categories_used'' of Inl e \<Rightarrow> Inl e | Inr v5 \<Rightarrow>
     (case dict_index stats ''synced_to_sheets'' of Inl e \<Rightarrow> Inl e | Inr v6 \<Rightarrow>
        Inr [v1, v2, v3, v4, v5, v6]))))))"

section \<open>Notions used in the statements\<close>

definition from_feed :: "pydict \<Rightarrow> bool" where
  \<comment> \<open>what \<open>get_transactions\<close> guarantees of a dictionary it returns: a string as
      \<open>transaction_id\<close>, a float as \<open>amount\<close>, and the other three keys that the
      pipeline indexes\<close>
  "from_feed tx =
     ((case tx ''transaction_id'' of Some (PStr i) \<Rightarrow> True | _ \<Rightarrow> False)
      \<and> (case tx ''amount'' of Some (PFloat a) \<Rightarrow> True | _ \<Rightarrow> False)
      \<and> tx ''account_id'' \<noteq> None \<and> tx ''date'' \<noteq> None \<and> tx ''name'' \<noteq> None)"

definition categorization_of :: "env \<Rightarrow> pydict \<Rightarrow> nat \<Rightarrow> pydict" where
  \<comment> \<open>the dictionary that \<open>categorize_transaction\<close> returns for a transaction when it
      is categorized after \<open>m\<close> earlier requests to the classifier\<close>
  "categorization_of lib tx m =
     (case fst (categorize_transaction lib tx m) of Inl e \<Rightarrow> Map.empty | Inr c \<Rightarrow> c)"

definition new_in :: "Transaction list \<Rightarrow> pydict list \<Rightarrow> pydict list" where
  \<comment> \<open>the fetched transactions whose \<open>transaction_id\<close> no stored row has\<close>
  "new_in rows txs =
     filter (\<lambda>tx. dict_get tx ''transaction_id'' PNone \<notin> set (map transaction_id rows)) txs"

definition stored_row :: "env \<Rightarrow> pydict \<Rightarrow> pydict \<Rightarrow> Transaction" where
  \<comment> \<open>the store record that the specification describes for a new transaction \<open>tx\<close>
      with categorization \<open>c\<close>: the fetched facts, the three fields of the
      categorization, the display string \<open>"{primary} - {subcategory}"\<close>, not yet synced\<close>
  "stored_row lib tx c =
     \<lparr>transaction_id = dict_get tx ''transaction_id'' PNone,
      account_id = dict_get tx ''account_id'' PNone,
      amount = dict_get tx ''amount'' PNone,
      date = dict_get tx ''date'' PNone,
      name = dict_get tx ''name'' PNone,
      merchant_name = dict_get tx ''merchant_name'' PNone,
      category =
        PStr (str_of lib (dict_get c ''primary_category'' PNone) @ '' - '' @
              str_of lib (dict_get c ''subcategory'' PNone)),
      category_confidence = dict_get c ''confidence'' PNone,
      primary_category = dict_get c ''primary_category'' PNone,
      subcategory = dict_get c ''subcategory'' PNone,
      description = dict_get tx ''description'' PNone,
      is_pending = dict_get tx ''is_pending'' (PBool False),
      synced_to_sheets = False\<rparr>"

definition confidence_of :: "pydict \<Rightarrow> real" where
  \<comment> \<open>the confidence a dictionary holds, as a number\<close>
  "confidence_of d = (case d ''confidence'' of Some (PFloat r) \<Rightarrow> r | _ \<Rightarrow> 0)"

definition categorized :: "pydict \<Rightarrow> pydict \<Rightarrow> bool" where
  \<comment> \<open>\<open>r\<close> is \<open>tx\<close> updated with a categorization: a category of the list, some
      subcategory and a float\<close>
  "categorized tx r =
     (\<exists>s sub x. s \<in> set CATEGORIES \<and>
        r = tx ++ [''primary_category'' \<mapsto> PStr s, ''subcategory'' \<mapsto> sub,
                   ''confidence'' \<mapsto> PFloat x])"

definition unsynced_rows :: "Transaction list \<Rightarrow> Transaction list" where
  \<comment> \<open>the rows that the query of step 5 returns\<close>
  "unsynced_rows rows = filter (\<lambda>r. \<not> synced_to_sheets r) rows"

definition normalized :: "string \<Rightarrow> string" where
  \<comment> \<open>the normalization as the specification words it: a category of the enumeration
      stays; otherwise the first entry, in list order, that contains the name or is
      contained in it, letter case ignored, and \<open>Other\<close> when there is none\<close>
  "normalized raw =
     (if raw \<in> set CATEGORIES then raw
      else
        (case find (\<lambda>cat. contains (lower raw) (lower cat) \<or> contains (lower cat) (lower raw))
                CATEGORIES of
           None \<Rightarrow> ''Other''
         | Some cat \<Rightarrow> cat))"

section \<open>Concrete inputs\<close>

text \<open>
  A small environment to run the definitions on: a JSON parser that knows three answers,
  a classifier given by its answers, a feed given by its transactions.
\<close>

definition json_shopping :: string where
  "json_shopping =
     ''{\"primary_category\": \"Shopping\", \"subcategory\": \"Books\", \"confidence\": 0.9}''"

definition json_food :: string where
  "json_food =
     ''{\"primary_category\": \"food\", \"subcategory\": \"Groceries\", \"confidence\": 0.6}''"

definition json_travel :: string where
  "json_travel =
     ''{\"primary_category\": \"Travel\", \"subcategory\": \"Flights\", \"confidence\": 1.5}''"

definition json_plain :: string where
  "json_plain = ''{\"primary_category\": \"Shopping\"}''"

definition demo_json_loads :: "string \<Rightarrow> pyval option" where
  "demo_json_loads s =
     map_of
       [(json_shopping,
         PDict [(''primary_category'', PStr ''Shopping''), (''subcategory'', PStr ''Books''),
                (''confidence'', PFloat 0.9)]),
        (json_food,
         PDict [(''primary_category'', PStr ''food''), (''subcategory'', PStr ''Groceries''),
                (''confidence'', PFloat 0.6)]),
        (json_travel,
         PDict [(''primary_category'', PStr ''Travel''), (''subcategory'', PStr ''Flights''),
                (''confidence'', PFloat 1.5)]),
        (''[1, 2]'', PList [PInt 1, PInt 2]),
        (json_plain, PDict [(''primary_category'', PStr ''Shopping'')])] s"

definition demo_env ::
  "(nat \<Rightarrow> error + string) \<Rightarrow> plaid_transaction list \<Rightarrow> string option \<Rightarrow> error option \<Rightarrow> env"
  where
  "demo_env answers feed sid upd =
     \<lparr>json_loads = demo_json_loads,
      float_of_str = (\<lambda>s. None),
      float_sum = sum_list,
      float_div = (\<lambda>a b. a / b),
      py_str = (\<lambda>v. ''?''),
      format_2f = (\<lambda>r. ''0.00''),
      strptime = (\<lambda>s. Some (2024, 1, 5)),
      strftime = (\<lambda>y m d. ''2024-01-05''),
      generate_content = (\<lambda>n prompt. answers n),
      access_token = ''access-sandbox'',
      transactions_get = Inr feed,
      spreadsheet_id = sid,
      ensure_sheet = None,
      values_clear = None,
      values_update = upd\<rparr>"

definition demo_plaid :: "string \<Rightarrow> plaid_transaction" where
  "demo_plaid i =
     \<lparr>plaid_transaction_id = i,
      plaid_account_id = ''acc'',
      plaid_amount = 12.5,
      plaid_date = ''2024-01-05'',
      plaid_name = ''Book shop'',
      plaid_merchant_name = None,
      plaid_original_description = None,
      plaid_pending = None,
      plaid_category = None,
      plaid_category_id = None\<rparr>"

definition demo_dict :: "string \<Rightarrow> pydict" where
  \<comment> \<open>the dictionary that \<open>get_transactions\<close> builds for \<open>demo_plaid i\<close>\<close>
  "demo_dict i =
     [''transaction_id'' \<mapsto> PStr i,
      ''account_id'' \<mapsto> PStr ''acc'',
      ''amount'' \<mapsto> PFloat 12.5,
      ''date'' \<mapsto> PDateTime 2024 1 5,
      ''name'' \<mapsto> PStr ''Book shop'',
      ''merchant_name'' \<mapsto> PNone,
      ''description'' \<mapsto> PStr ''Book shop'',
      ''is_pending'' \<mapsto> PBool False,
      ''category'' \<mapsto> PNone,
      ''category_id'' \<mapsto> PNone]"

definition demo_tx :: pydict where
  "demo_tx =
     [''transaction_id'' \<mapsto> PStr ''t1'', ''name'' \<mapsto> PStr ''Book shop'',
      ''amount'' \<mapsto> PFloat 12.5, ''confidence'' \<mapsto> PStr ''from the feed'']"

definition demo_row :: "string \<Rightarrow> bool \<Rightarrow> Transaction" where
  "demo_row i synced =
     \<lparr>transaction_id = PStr i,
      account_id = PStr ''acc'',
      amount = PFloat 3,
      date = PDateTime 2024 1 5,
      name = PStr ''Bakery'',
      merchant_name = PNone,
      category = PStr ''Food & Dining - Bakery'',
      category_confidence = PFloat 0.8,
      primary_category = PStr ''Food & Dining'',
      subcategory = PStr ''Bakery'',
      description = PNone,
      is_pending = PBool False,
      synced_to_sheets = synced\<rparr>"

definition empty_world :: world where
  "empty_world = \<lparr>store = [], sheet = [], requests = 0\<rparr>"

section \<open>Properties of the categorization service\<close>

lemmas demo_defs =
  demo_env_def demo_json_loads_def json_shopping_def json_food_def json_travel_def
  json_plain_def
  demo_tx_def demo_plaid_def demo_row_def empty_world_def

lemmas categorize_defs =
  categorize_transaction_def categorize_try_def classifier_response_def
  parse_response_def extract_json_text_def parse_json_def validate_result_def
  obj_get_def normalize_category_def find_closest_category_def py_float_def
  transaction_desc_def abs_amount_def dict_get_def requests_made_def too_large_for_float_def
  strip_def is_space_def starts_with_def split_second_def
  lower_def lower_char_def CATEGORIES_def fallback_def

lemma closest_in_member: "closest_in s cats = Some c \<Longrightarrow> c \<in> set cats"
  by (induction cats) (auto split: if_splits)

lemma Other_in_CATEGORIES: "''Other'' \<in> set CATEGORIES"
  by (simp add: CATEGORIES_def)

lemma normalize_category_closed:
  assumes "normalize_category v = Inr c"
  shows "\<exists>s. c = PStr s \<and> s \<in> set CATEGORIES"
proof (cases "v \<in> set (map PStr CATEGORIES)")
  case True
  with assms show ?thesis by (auto simp: normalize_category_def)
next
  case False
  with assms show ?thesis
    using Other_in_CATEGORIES
    by (auto simp: normalize_category_def find_closest_category_def
             split: sum.splits option.splits pyval.splits if_splits
             dest: closest_in_member)
qed

lemma validate_result_shape:
  assumes "validate_result lib result = Inr c"
  shows "\<exists>s sub r. s \<in> set CATEGORIES \<and>
           c = [''primary_category'' \<mapsto> PStr s, ''subcategory'' \<mapsto> sub,
                ''confidence'' \<mapsto> PFloat r]"
  using assms
  by (auto simp: validate_result_def split: sum.splits dest!: normalize_category_closed)

lemma fallback_shape:
  "\<exists>s sub r. s \<in> set CATEGORIES \<and>
           fallback = [''primary_category'' \<mapsto> PStr s, ''subcategory'' \<mapsto> sub,
                ''confidence'' \<mapsto> PFloat r]"
  unfolding fallback_def using Other_in_CATEGORIES by blast

lemma categorize_try_validated:
  assumes "categorize_try lib tx n = Inr c"
  shows "\<exists>t result. classifier_response lib tx n = Inr t \<and> parse_response lib t = Inr result
           \<and> validate_result lib result = Inr c"
  using assms by (auto simp: categorize_try_def split: sum.splits)

lemma categorize_transaction_result:
  "fst (categorize_transaction lib tx n) =
     (case categorize_try lib tx n of Inl e \<Rightarrow> Inr fallback | Inr c \<Rightarrow> Inr c)"
  by (simp add: categorize_transaction_def split: sum.splits)

lemma categorize_transaction_shape:
  "\<exists>s sub r. s \<in> set CATEGORIES \<and>
     fst (categorize_transaction lib tx n) =
       Inr [''primary_category'' \<mapsto> PStr s, ''subcategory'' \<mapsto> sub,
            ''confidence'' \<mapsto> PFloat r]"
proof (cases "categorize_try lib tx n")
  case (Inl e)
  then show ?thesis using fallback_shape by (simp add: categorize_transaction_result)
next
  case (Inr c)
  from categorize_try_validated[OF Inr] obtain result where "validate_result lib result = Inr c"
    by blast
  from validate_result_shape[OF this] Inr show ?thesis
    by (simp add: categorize_transaction_result)
qed

lemma shape_dom:
  "dom [''primary_category'' \<mapsto> a, ''subcategory'' \<mapsto> b, ''confidence'' \<mapsto> c]
     = {''primary_category'', ''subcategory'', ''confidence''}"
  by auto

lemma validate_result_needs_dict:
  "\<forall>kvs. v \<noteq> PDict kvs \<Longrightarrow> validate_result lib v = Inl AttributeError"
  by (cases v) (simp_all add: validate_result_def obj_get_def)

text \<open>
  Claim C1. \<open>categorize_transaction\<close> never raises: for every transaction, classifier and
  request number it returns a dictionary with exactly the keys \<open>primary_category\<close>,
  \<open>subcategory\<close> and \<open>confidence\<close>. Whenever its \<open>try\<close> block raises, the result is the
  fallback \<open>{Other, Uncategorized, 0.0}\<close>; in particular when the classifier call errors,
  when the response cannot be parsed, and when it parses to something that is not a
  JSON object.
\<close>

theorem categorize_transaction_never_raises:
  "\<exists>c. fst (categorize_transaction lib tx n) = Inr c
     \<and> dom c = {''primary_category'', ''subcategory'', ''confidence''}
     \<and> ((\<exists>e. categorize_try lib tx n = Inl e) \<longrightarrow> c = fallback)
     \<and> ((\<exists>e. classifier_response lib tx n = Inl e) \<longrightarrow> c = fallback)
     \<and> (\<forall>t. classifier_response lib tx n = Inr t \<longrightarrow>
            (\<exists>e. parse_response lib t = Inl e) \<longrightarrow> c = fallback)
     \<and> (\<forall>t v. classifier_response lib tx n = Inr t \<longrightarrow> parse_response lib t = Inr v \<longrightarrow>
            (\<forall>kvs. v \<noteq> PDict kvs) \<longrightarrow> c = fallback)"
proof -
  obtain s sub r where c:
    "fst (categorize_transaction lib tx n) =
       Inr [''primary_category'' \<mapsto> PStr s, ''subcategory'' \<mapsto> sub, ''confidence'' \<mapsto> PFloat r]"
    using categorize_transaction_shape by blast
  let ?c = "[''primary_category'' \<mapsto> PStr s, ''subcategory'' \<mapsto> sub, ''confidence'' \<mapsto> PFloat r]"
  have fb: "?c = fallback" if "categorize_try lib tx n = Inl e" for e
    using that c by (simp add: categorize_transaction_result)
  have 1: "(\<exists>e. categorize_try lib tx n = Inl e) \<longrightarrow> ?c = fallback"
    using fb by blast
  have 2: "(\<exists>e. classifier_response lib tx n = Inl e) \<longrightarrow> ?c = fallback"
  proof
    assume "\<exists>e. classifier_response lib tx n = Inl e"
    then obtain e where "categorize_try lib tx n = Inl e"
      by (auto simp: categorize_try_def)
    then show "?c = fallback" by (rule fb)
  qed
  have 3: "\<forall>t. classifier_response lib tx n = Inr t \<longrightarrow>
            (\<exists>e. parse_response lib t = Inl e) \<longrightarrow> ?c = fallback"
  proof (intro allI impI)
    fix t assume "classifier_response lib tx n = Inr t" "\<exists>e. parse_response lib t = Inl e"
    then obtain e where "categorize_try lib tx n = Inl e"
      by (auto simp: categorize_try_def)
    then show "?c = fallback" by (rule fb)
  qed
  have 4: "\<forall>t v. classifier_response lib tx n = Inr t \<longrightarrow> parse_response lib t = Inr v \<longrightarrow>
            (\<forall>kvs. v \<noteq> PDict kvs) \<longrightarrow> ?c = fallback"
  proof (intro allI impI)
    fix t v assume "classifier_response lib tx n = Inr t" "parse_response lib t = Inr v"
      "\<forall>kvs. v \<noteq> PDict kvs"
    then have "categorize_try lib tx n = Inl AttributeError"
      by (simp add: categorize_try_def validate_result_needs_dict)
    then show "?c = fallback" by (rule fb)
  qed
  show ?thesis
    using c shape_dom[of "PStr s" sub "PFloat r"] 1 2 3 4 by (intro exI[of _ ?c]) blast
qed

theorem categorize_transaction_never_raises_witness:
  "classifier_response (demo_env (\<lambda>n. Inl ApiError) [] None None) demo_tx 0 = Inl ApiError
   \<and> fst (categorize_transaction (demo_env (\<lambda>n. Inl ApiError) [] None None) demo_tx 0) = Inr fallback
   \<and> classifier_response (demo_env (\<lambda>n. Inr ''Sorry, { no answer'') [] None None) demo_tx 0
       = Inr ''Sorry, { no answer''
   \<and> parse_response (demo_env (\<lambda>n. Inr ''Sorry, { no answer'') [] None None) ''Sorry, { no answer''
       = Inl ValueError
   \<and> fst (categorize_transaction (demo_env (\<lambda>n. Inr ''Sorry, { no answer'') [] None None) demo_tx 0)
       = Inr fallback
   \<and> classifier_response (demo_env (\<lambda>n. Inr ''[1, 2]'') [] None None) demo_tx 0 = Inr ''[1, 2]''
   \<and> parse_response (demo_env (\<lambda>n. Inr ''[1, 2]'') [] None None) ''[1, 2]''
       = Inr (PList [PInt 1, PInt 2])
   \<and> fst (categorize_transaction (demo_env (\<lambda>n. Inr ''[1, 2]'') [] None None) demo_tx 0)
       = Inr fallback"
proof -
  let ?down = "demo_env (\<lambda>n. Inl ApiError) [] None None"
  let ?prose = "demo_env (\<lambda>n. Inr ''Sorry, { no answer'') [] None None"
  let ?array = "demo_env (\<lambda>n. Inr ''[1, 2]'') [] None None"
  have a: "classifier_response ?down demo_tx 0 = Inl ApiError"
    by (simp add: classifier_response_def transaction_desc_def abs_amount_def dict_get_def
          demo_defs)
  have b: "classifier_response ?prose demo_tx 0 = Inr ''Sorry, { no answer''"
    by (simp add: classifier_response_def transaction_desc_def abs_amount_def dict_get_def
          demo_defs strip_def is_space_def)
  have b': "parse_response ?prose ''Sorry, { no answer'' = Inl ValueError"
    by (simp add: parse_response_def extract_json_text_def parse_json_def starts_with_def
          demo_defs)
  have c: "classifier_response ?array demo_tx 0 = Inr ''[1, 2]''"
    by (simp add: classifier_response_def transaction_desc_def abs_amount_def dict_get_def
          demo_defs strip_def is_space_def)
  have c': "parse_response ?array ''[1, 2]'' = Inr (PList [PInt 1, PInt 2])"
    by (simp add: parse_response_def extract_json_text_def parse_json_def starts_with_def
          demo_defs)
  have "fst (categorize_transaction ?down demo_tx 0) = Inr fallback"
    using categorize_transaction_never_raises[of ?down demo_tx 0] a by auto
  moreover have "fst (categorize_transaction ?prose demo_tx 0) = Inr fallback"
    using categorize_transaction_never_raises[of ?prose demo_tx 0] b b' by auto
  moreover have "fst (categorize_transaction ?array demo_tx 0) = Inr fallback"
    using categorize_transaction_never_raises[of ?array demo_tx 0] c c' by auto
  ultimately show ?thesis using a b b' c c' by simp
qed

text \<open>
  Claim C5 says that the confidence of every categorization result lies between 0.0 and
  1.0. The code converts the classifier's number with \<open>float\<close> and checks no range: an
  answer that reports 1.5 gives a result with confidence 1.5.
\<close>

theorem confidence_above_one_counterexample:
  "fst (categorize_transaction (demo_env (\<lambda>n. Inr json_travel) [] None None) demo_tx 0) =
     Inr [''primary_category'' \<mapsto> PStr ''Travel'', ''subcategory'' \<mapsto> PStr ''Flights'',
          ''confidence'' \<mapsto> PFloat 1.5]
   \<and> \<not> (1.5 \<le> (1::real))"
  by (simp add: categorize_defs demo_defs)

lemma validate_result_confidence:
  assumes "validate_result lib (PDict kvs) = Inr c"
  shows "\<exists>r. c ''confidence'' = Some (PFloat r)
           \<and> py_float lib (case map_of kvs ''confidence'' of None \<Rightarrow> PFloat 0.5 | Some x \<Rightarrow> x)
               = Inr r"
  using assms unfolding validate_result_def obj_get_def pyval.case
  by (auto split: sum.splits)

lemma validate_result_is_dict:
  "validate_result lib v = Inr c \<Longrightarrow> \<exists>kvs. v = PDict kvs"
  using validate_result_needs_dict[of v lib] by auto

text \<open>
  Claim C5, as amended. The fallback result has confidence 0.0. When the \<open>try\<close> block
  succeeds, the confidence of the result is \<open>float\<close> of the value the parsed answer
  reports under \<open>confidence\<close>, and of 0.5 when it reports none: a reported float is
  returned as it is, with no range check, so the result lies between 0.0 and 1.0
  whenever that number does.
\<close>

theorem confidence_bound_amended:
  "\<exists>c r. fst (categorize_transaction lib tx n) = Inr c
     \<and> c ''confidence'' = Some (PFloat r)
     \<and> ((\<exists>e. categorize_try lib tx n = Inl e) \<longrightarrow> r = 0)
     \<and> (\<forall>c'. categorize_try lib tx n = Inr c' \<longrightarrow>
           (\<exists>t kvs. classifier_response lib tx n = Inr t
              \<and> parse_response lib t = Inr (PDict kvs)
              \<and> py_float lib (case map_of kvs ''confidence'' of
                                 None \<Rightarrow> PFloat 0.5 | Some x \<Rightarrow> x) = Inr r
              \<and> (map_of kvs ''confidence'' = None \<longrightarrow> r = 0.5)
              \<and> (\<forall>y. map_of kvs ''confidence'' = Some (PFloat y) \<longrightarrow> r = y)
              \<and> ((\<forall>y. py_float lib (case map_of kvs ''confidence'' of
                                       None \<Rightarrow> PFloat 0.5 | Some x \<Rightarrow> x) = Inr y
                        \<longrightarrow> 0 \<le> y \<and> y \<le> 1)
                   \<longrightarrow> 0 \<le> r \<and> r \<le> 1)))"
proof (cases "categorize_try lib tx n")
  case (Inl e)
  then have "fst (categorize_transaction lib tx n) = Inr fallback"
    by (simp add: categorize_transaction_result)
  moreover have "fallback ''confidence'' = Some (PFloat 0)"
    by (simp add: fallback_def)
  ultimately show ?thesis using Inl by (intro exI[of _ fallback] exI[of _ 0]) simp
next
  case (Inr c)
  from categorize_try_validated[OF Inr] obtain t result where
    t: "classifier_response lib tx n = Inr t" and p: "parse_response lib t = Inr result"
    and v: "validate_result lib result = Inr c"
    by blast
  from validate_result_is_dict[OF v] obtain kvs where kvs: "result = PDict kvs" by blast
  let ?reported = "case map_of kvs ''confidence'' of None \<Rightarrow> PFloat 0.5 | Some x \<Rightarrow> x"
  from validate_result_confidence[OF v[unfolded kvs]] obtain r where
    cr: "c ''confidence'' = Some (PFloat r)" and fl: "py_float lib ?reported = Inr r"
    by blast
  have d: "map_of kvs ''confidence'' = None \<longrightarrow> r = 0.5"
    using fl by (auto simp: py_float_def)
  have g: "\<forall>y. map_of kvs ''confidence'' = Some (PFloat y) \<longrightarrow> r = y"
    using fl by (auto simp: py_float_def)
  have b: "(\<forall>y. py_float lib ?reported = Inr y \<longrightarrow> 0 \<le> y \<and> y \<le> 1) \<longrightarrow> 0 \<le> r \<and> r \<le> 1"
    using fl by blast
  have res: "fst (categorize_transaction lib tx n) = Inr c"
    using Inr by (simp add: categorize_transaction_result)
  have "\<exists>t kvs. classifier_response lib tx n = Inr t
              \<and> parse_response lib t = Inr (PDict kvs)
              \<and> py_float lib (case map_of kvs ''confidence'' of
                                 None \<Rightarrow> PFloat 0.5 | Some x \<Rightarrow> x) = Inr r
              \<and> (map_of kvs ''confidence'' = None \<longrightarrow> r = 0.5)
              \<and> (\<forall>y. map_of kvs ''confidence'' = Some (PFloat y) \<longrightarrow> r = y)
              \<and> ((\<forall>y. py_float lib (case map_of kvs ''confidence'' of
                                       None \<Rightarrow> PFloat 0.5 | Some x \<Rightarrow> x) = Inr y
                        \<longrightarrow> 0 \<le> y \<and> y \<le> 1)
                   \<longrightarrow> 0 \<le> r \<and> r \<le> 1)"
    using t p[unfolded kvs] fl d g b by (intro exI[of _ t] exI[of _ kvs] conjI)
  then show ?thesis using res cr Inr by (intro exI[of _ c] exI[of _ r]) simp
qed

theorem confidence_bound_amended_witness:
  "fst (categorize_transaction (demo_env (\<lambda>n. Inr json_shopping) [] None None) demo_tx 0)
     = Inr [''primary_category'' \<mapsto> PStr ''Shopping'', ''subcategory'' \<mapsto> PStr ''Books'',
            ''confidence'' \<mapsto> PFloat 0.9]
   \<and> (\<exists>c. fst (categorize_transaction (demo_env (\<lambda>n. Inr json_shopping) [] None None)
                  demo_tx 0) = Inr c
          \<and> c ''confidence'' = Some (PFloat 0.9))
   \<and> (0::real) \<le> 0.9 \<and> (0.9::real) \<le> 1
   \<and> fst (categorize_transaction (demo_env (\<lambda>n. Inr json_plain) [] None None) demo_tx 0)
     = Inr [''primary_category'' \<mapsto> PStr ''Shopping'', ''subcategory'' \<mapsto> PStr [],
            ''confidence'' \<mapsto> PFloat 0.5]
   \<and> fst (categorize_transaction (demo_env (\<lambda>n. Inl ApiError) [] None None) demo_tx 0)
     = Inr [''primary_category'' \<mapsto> PStr ''Other'', ''subcategory'' \<mapsto> PStr ''Uncategorized'',
            ''confidence'' \<mapsto> PFloat 0]"
proof -
  let ?a = "demo_env (\<lambda>n. Inr json_shopping) [] None None"
  let ?b = "demo_env (\<lambda>n. Inr json_plain) [] None None"
  let ?d = "demo_env (\<lambda>n. Inl ApiError) [] None None"
  let ?ca = "[''primary_category'' \<mapsto> PStr ''Shopping'', ''subcategory'' \<mapsto> PStr ''Books'',
            ''confidence'' \<mapsto> PFloat 0.9]"
  let ?cb = "[''primary_category'' \<mapsto> PStr ''Shopping'', ''subcategory'' \<mapsto> PStr [],
            ''confidence'' \<mapsto> PFloat 0.5]"
  have ta: "categorize_try ?a demo_tx 0 = Inr ?ca"
    by (simp add: categorize_defs demo_defs)
  have pa: "\<And>t kvs. classifier_response ?a demo_tx 0 = Inr t \<Longrightarrow>
              parse_response ?a t = Inr (PDict kvs) \<Longrightarrow>
              map_of kvs ''confidence'' = Some (PFloat 0.9)"
    by (auto simp: classifier_response_def transaction_desc_def abs_amount_def dict_get_def
          strip_def is_space_def parse_response_def extract_json_text_def parse_json_def
          starts_with_def demo_defs)
  from confidence_bound_amended[of ?a demo_tx 0] obtain c r where
    c: "fst (categorize_transaction ?a demo_tx 0) = Inr c"
    and cr: "c ''confidence'' = Some (PFloat r)"
    and ok: "\<forall>c'. categorize_try ?a demo_tx 0 = Inr c' \<longrightarrow>
           (\<exists>t kvs. classifier_response ?a demo_tx 0 = Inr t
              \<and> parse_response ?a t = Inr (PDict kvs)
              \<and> py_float ?a (case map_of kvs ''confidence'' of
                                 None \<Rightarrow> PFloat 0.5 | Some x \<Rightarrow> x) = Inr r
              \<and> (map_of kvs ''confidence'' = None \<longrightarrow> r = 0.5)
              \<and> (\<forall>y. map_of kvs ''confidence'' = Some (PFloat y) \<longrightarrow> r = y)
              \<and> ((\<forall>y. py_float ?a (case map_of kvs ''confidence'' of
                                       None \<Rightarrow> PFloat 0.5 | Some x \<Rightarrow> x) = Inr y
                        \<longrightarrow> 0 \<le> y \<and> y \<le> 1)
                   \<longrightarrow> 0 \<le> r \<and> r \<le> 1))"
    by (elim exE conjE)
  from ok[THEN spec, THEN mp, OF ta] obtain t kvs where
    t: "classifier_response ?a demo_tx 0 = Inr t" and p: "parse_response ?a t = Inr (PDict kvs)"
    and g: "\<forall>y. map_of kvs ''confidence'' = Some (PFloat y) \<longrightarrow> r = y"
    by (elim exE conjE)
  have r: "r = 0.9" by (rule g[THEN spec, THEN mp, OF pa[OF t p]])
  have 1: "fst (categorize_transaction ?a demo_tx 0) = Inr ?ca"
    using ta by (simp add: categorize_transaction_result)
  have w1: "\<exists>c. fst (categorize_transaction ?a demo_tx 0) = Inr c
          \<and> c ''confidence'' = Some (PFloat 0.9)"
    using c cr unfolding r by (intro exI[of _ c] conjI)
  have 2: "(0::real) \<le> 0.9" "(0.9::real) \<le> 1" by simp_all
  have 3: "fst (categorize_transaction ?b demo_tx 0) = Inr ?cb"
    by (simp add: categorize_defs demo_defs)
  have 4: "fst (categorize_transaction ?d demo_tx 0)
     = Inr [''primary_category'' \<mapsto> PStr ''Other'', ''subcategory'' \<mapsto> PStr ''Uncategorized'',
            ''confidence'' \<mapsto> PFloat 0]"
    by (simp add: categorize_defs demo_defs)
  show ?thesis using 1 w1 2 3 4 by (intro conjI)
qed

lemma requests_made_bounds:
  "n \<le> snd (categorize_transaction lib tx n) \<and> snd (categorize_transaction lib tx n) \<le> Suc n"
  by (simp add: categorize_transaction_def requests_made_def split: sum.splits)

lemma categorize_batch_step:
  assumes "fst (categorize_transaction lib tx n) = Inr c"
    and "fst (categorize_batch lib txs (snd (categorize_transaction lib tx n))) = Inr rs"
  shows "fst (categorize_batch lib (tx # txs) n) = Inr ((tx ++ c) # rs)"
proof -
  obtain n' where a: "categorize_transaction lib tx n = (Inr c, n')"
    using assms(1) by (cases "categorize_transaction lib tx n") simp
  with assms(2) obtain n'' where b: "categorize_batch lib txs n' = (Inr rs, n'')"
    by (cases "categorize_batch lib txs n'") simp
  show ?thesis by (simp add: a b)
qed

lemma categorize_batch_elements:
  "\<exists>rs. fst (categorize_batch lib txs n) = Inr rs \<and> length rs = length txs
     \<and> (\<forall>i<length txs. merged_at lib n txs rs i)"
proof (induction txs arbitrary: n)
  case Nil
  show ?case by simp
next
  case (Cons tx txs)
  define n' where "n' = snd (categorize_transaction lib tx n)"
  obtain c where c: "fst (categorize_transaction lib tx n) = Inr c"
    using categorize_transaction_shape[of lib tx n] by blast
  from Cons.IH[of n'] obtain rs where rs: "fst (categorize_batch lib txs n') = Inr rs"
    and len: "length rs = length txs"
    and el: "\<And>i. i < length txs \<Longrightarrow> merged_at lib n' txs rs i"
    by blast
  have res: "fst (categorize_batch lib (tx # txs) n) = Inr ((tx ++ c) # rs)"
    using c rs unfolding n'_def by (rule categorize_batch_step)
  have bounds: "n \<le> n'" "n' \<le> Suc n"
    using requests_made_bounds[of n lib tx] by (simp_all add: n'_def)
  have "merged_at lib n (tx # txs) ((tx ++ c) # rs) i" if "i < length (tx # txs)" for i
  proof (cases i)
    case 0
    have "n \<le> n \<and> n \<le> n + 0 \<and> fst (categorize_transaction lib tx n) = Inr c
            \<and> tx ++ c = tx ++ c"
      using c by simp
    then show ?thesis unfolding merged_at_def 0 by (intro exI[of _ c] exI[of _ n]) simp
  next
    case (Suc j)
    with that have "j < length txs" by simp
    from el[OF this] obtain c' m where m: "n' \<le> m" "m \<le> n' + j"
      and c': "fst (categorize_transaction lib (txs ! j) m) = Inr c'"
      and r: "rs ! j = txs ! j ++ c'"
      unfolding merged_at_def by blast
    have "n \<le> m" "m \<le> n + Suc j" using m bounds by linarith+
    then show ?thesis unfolding merged_at_def Suc using c' r
      by (intro exI[of _ c'] exI[of _ m]) simp
  qed
  then have "\<forall>i<length (tx # txs). merged_at lib n (tx # txs) ((tx ++ c) # rs) i" by blast
  moreover have "length ((tx ++ c) # rs) = length (tx # txs)" using len by simp
  ultimately show ?case using res by blast
qed


text \<open>
  Claim C10. \<open>categorize_batch\<close> returns a list as long as its input and in the same
  order; element \<open>i\<close> is input transaction \<open>i\<close> updated with the result of its
  categorization: it has every key of the input and the keys \<open>primary_category\<close>,
  \<open>subcategory\<close> and \<open>confidence\<close>, these three with the categorization's values and
  every other key with the input's.
\<close>

theorem categorize_batch_merges:
  "\<exists>rs. fst (categorize_batch lib txs n) = Inr rs \<and> length rs = length txs
     \<and> (\<forall>i<length txs. \<exists>c m. n \<le> m \<and> m \<le> n + i
            \<and> fst (categorize_transaction lib (txs ! i) m) = Inr c
            \<and> dom c = {''primary_category'', ''subcategory'', ''confidence''}
            \<and> rs ! i = txs ! i ++ c
            \<and> dom (rs ! i) = dom (txs ! i) \<union> {''primary_category'', ''subcategory'', ''confidence''}
            \<and> (\<forall>k\<in>{''primary_category'', ''subcategory'', ''confidence''}. (rs ! i) k = c k)
            \<and> (\<forall>k. k \<notin> {''primary_category'', ''subcategory'', ''confidence''} \<longrightarrow>
                   (rs ! i) k = (txs ! i) k))"
proof -
  let ?K = "{''primary_category'', ''subcategory'', ''confidence''}"
  obtain rs where rs: "fst (categorize_batch lib txs n) = Inr rs" "length rs = length txs"
    and el: "\<And>i. i < length txs \<Longrightarrow> merged_at lib n txs rs i"
    using categorize_batch_elements[of lib txs n] by blast
  have "\<exists>c m. n \<le> m \<and> m \<le> n + i
            \<and> fst (categorize_transaction lib (txs ! i) m) = Inr c
            \<and> dom c = ?K
            \<and> rs ! i = txs ! i ++ c
            \<and> dom (rs ! i) = dom (txs ! i) \<union> ?K
            \<and> (\<forall>k\<in>?K. (rs ! i) k = c k)
            \<and> (\<forall>k. k \<notin> ?K \<longrightarrow> (rs ! i) k = (txs ! i) k)" if "i < length txs" for i
  proof -
    from el[OF that] obtain c m where m: "n \<le> m" "m \<le> n + i"
      and c: "fst (categorize_transaction lib (txs ! i) m) = Inr c"
      and r: "rs ! i = txs ! i ++ c"
      unfolding merged_at_def by blast
    obtain s sub x where "fst (categorize_transaction lib (txs ! i) m) =
        Inr [''primary_category'' \<mapsto> PStr s, ''subcategory'' \<mapsto> sub, ''confidence'' \<mapsto> PFloat x]"
      using categorize_transaction_shape[of lib "txs ! i" m] by blast
    with c have "c = [''primary_category'' \<mapsto> PStr s, ''subcategory'' \<mapsto> sub,
                      ''confidence'' \<mapsto> PFloat x]"
      by simp
    then have d: "dom c = ?K" by (simp only: shape_dom)
    have d1: "dom (rs ! i) = dom (txs ! i) \<union> ?K"
      unfolding r dom_map_add d by (rule Un_commute)
    have d2: "\<forall>k\<in>?K. (rs ! i) k = c k"
      unfolding r using d by (simp add: map_add_dom_app_simps(1))
    have d3: "\<forall>k. k \<notin> ?K \<longrightarrow> (rs ! i) k = (txs ! i) k"
      unfolding r using d by (simp add: map_add_dom_app_simps(3))
    show ?thesis
      using m c d r d1 d2 d3 by (intro exI[of _ c] exI[of _ m] conjI)
  qed
  then show ?thesis using rs by (intro exI[of _ rs] conjI allI impI)
qed


lemma demo_first:
  "categorize_transaction (demo_env (\<lambda>n. if n = 0 then Inr json_shopping else Inl ApiError)
                                 [] None None) demo_tx 0
   = (Inr [''primary_category'' \<mapsto> PStr ''Shopping'',
                               ''subcategory'' \<mapsto> PStr ''Books'', ''confidence'' \<mapsto> PFloat 0.9], Suc 0)"
  by (simp add: categorize_defs demo_defs)

lemma demo_second:
  "categorize_transaction (demo_env (\<lambda>n. if n = 0 then Inr json_shopping else Inl ApiError)
                                 [] None None) Map.empty (Suc 0)
   = (Inr fallback, Suc (Suc 0))"
  by (simp add: categorize_transaction_def categorize_try_def classifier_response_def
        transaction_desc_def abs_amount_def dict_get_def requests_made_def demo_env_def
        too_large_for_float_def)


lemma demo_batch:
  "fst (categorize_batch (demo_env (\<lambda>n. if n = 0 then Inr json_shopping else Inl ApiError)
                                 [] None None) [demo_tx, Map.empty] 0) =
          Inr [demo_tx ++ [''primary_category'' \<mapsto> PStr ''Shopping'',
                               ''subcategory'' \<mapsto> PStr ''Books'', ''confidence'' \<mapsto> PFloat 0.9],
               Map.empty ++ fallback]"
  by (simp add: demo_first demo_second)


theorem categorize_batch_merges_witness:
  "\<exists>rs. fst (categorize_batch (demo_env (\<lambda>n. if n = 0 then Inr json_shopping else Inl ApiError)
                                 [] None None)
                [demo_tx, Map.empty] 0) = Inr rs
     \<and> length rs = 2
     \<and> rs ! 0 = demo_tx ++ [''primary_category'' \<mapsto> PStr ''Shopping'',
                               ''subcategory'' \<mapsto> PStr ''Books'', ''confidence'' \<mapsto> PFloat 0.9]
     \<and> (rs ! 0) ''confidence'' = Some (PFloat 0.9)
     \<and> demo_tx ''confidence'' = Some (PStr ''from the feed'')
     \<and> (rs ! 0) ''name'' = Some (PStr ''Book shop'')
     \<and> rs ! 1 = fallback"
proof -
  let ?lib = "demo_env (\<lambda>n. if n = 0 then Inr json_shopping else Inl ApiError) [] None None"
  let ?c = "[''primary_category'' \<mapsto> PStr ''Shopping'',
             ''subcategory'' \<mapsto> PStr ''Books'', ''confidence'' \<mapsto> PFloat 0.9]"
  have "\<exists>rs. fst (categorize_batch ?lib [demo_tx, Map.empty] 0) = Inr rs
          \<and> length rs = length [demo_tx, Map.empty :: pydict]"
    using categorize_batch_merges[of ?lib "[demo_tx, Map.empty]" 0]
    by (elim exE conjE, intro exI conjI)
  then obtain rs where rs: "fst (categorize_batch ?lib [demo_tx, Map.empty] 0) = Inr rs"
    and len: "length rs = length [demo_tx, Map.empty :: pydict]"
    by (elim exE conjE)
  from rs have eq: "rs = [demo_tx ++ ?c, fallback]"
    by (simp only: demo_batch sum.inject map_add_empty empty_map_add)
  have 1: "length rs = 2" using len by simp
  have 2: "rs ! 0 = demo_tx ++ ?c" by (simp add: eq)
  have 3: "(rs ! 0) ''confidence'' = Some (PFloat 0.9)" by (simp add: eq)
  have 4: "demo_tx ''confidence'' = Some (PStr ''from the feed'')" by (simp add: demo_tx_def)
  have 5: "(rs ! 0) ''name'' = Some (PStr ''Book shop'')" by (simp add: eq demo_tx_def)
  have 6: "rs ! 1 = fallback" by (simp add: eq)
  show ?thesis using rs 1 2 3 4 5 6 by (intro exI[of _ rs] conjI)
qed

section \<open>Properties of the ingestion pipeline\<close>

lemma run_fetch_error:
  "get_all_transactions_since lib = Inl e \<Longrightarrow>
   fetch_and_process_transactions lib sync w = (Inl e, w)"
  by (simp add: fetch_and_process_transactions_def)

lemma run_empty_feed:
  "get_all_transactions_since lib = Inr [] \<Longrightarrow>
   fetch_and_process_transactions lib sync w = (Inr (short_stats 0), w)"
  by (simp add: fetch_and_process_transactions_def)

lemma run_nothing_new:
  "get_all_transactions_since lib = Inr txs \<Longrightarrow> txs \<noteq> [] \<Longrightarrow>
   new_of (map transaction_id (store w)) txs = Inr [] \<Longrightarrow>
   fetch_and_process_transactions lib sync w = (Inr (short_stats (length txs)), w)"
  by (simp add: fetch_and_process_transactions_def)

lemma run_commit_error:
  "get_all_transactions_since lib = Inr txs \<Longrightarrow> txs \<noteq> [] \<Longrightarrow>
   new_of (map transaction_id (store w)) txs = Inr new \<Longrightarrow> new \<noteq> [] \<Longrightarrow>
   categorize_batch lib new (requests w) = (Inr cats, n) \<Longrightarrow>
   average_confidence lib cats = Inr avg \<Longrightarrow>
   commit (store w) (fst (store_rows lib cats)) = Inl e \<Longrightarrow>
   fetch_and_process_transactions lib sync w = (Inl e, w\<lparr>requests := n\<rparr>)"
  by (simp add: fetch_and_process_transactions_def)

lemma run_complete:
  "get_all_transactions_since lib = Inr txs \<Longrightarrow> txs \<noteq> [] \<Longrightarrow>
   new_of (map transaction_id (store w)) txs = Inr new \<Longrightarrow> new \<noteq> [] \<Longrightarrow>
   categorize_batch lib new (requests w) = (Inr cats, n) \<Longrightarrow>
   average_confidence lib cats = Inr avg \<Longrightarrow>
   commit (store w) (fst (store_rows lib cats)) = Inr table \<Longrightarrow>
   categories_used cats = Inr used \<Longrightarrow>
   sy = (if sync \<and> cats \<noteq> [] then sync_step lib (w\<lparr>store := table, requests := n\<rparr>)
         else (0, w\<lparr>store := table, requests := n\<rparr>)) \<Longrightarrow>
   fetch_and_process_transactions lib sync w =
     (Inr [''total_fetched'' \<mapsto> PInt (int (length txs)),
           ''new_transactions'' \<mapsto> PInt (int (length new)),
           ''categorized'' \<mapsto> PInt (int (length cats)),
           ''average_confidence'' \<mapsto> avg,
           ''synced_to_sheets'' \<mapsto> PInt (int (fst sy)),
           ''categories_used'' \<mapsto> used],
      snd sy)"
  by (simp add: fetch_and_process_transactions_def split: prod.splits)

lemma transaction_dict_from_feed:
  "transaction_dict lib t = Inr d \<Longrightarrow> from_feed d"
  by (auto simp: transaction_dict_def from_feed_def split: option.splits)

lemma transaction_list_from_feed:
  "transaction_list lib ts = Inr ds \<Longrightarrow> \<forall>d\<in>set ds. from_feed d"
proof (induction ts arbitrary: ds)
  case Nil
  then show ?case by simp
next
  case (Cons t ts)
  from Cons.prems obtain d ds' where d: "transaction_dict lib t = Inr d"
    and ds': "transaction_list lib ts = Inr ds'" and eq: "ds = d # ds'"
    by (auto split: sum.splits)
  from Cons.IH[OF ds'] transaction_dict_from_feed[OF d] eq show ?case by simp
qed

lemma get_all_from_feed:
  "get_all_transactions_since lib = Inr txs \<Longrightarrow> \<forall>tx\<in>set txs. from_feed tx"
  by (auto simp: get_all_transactions_since_def get_transactions_def
        split: if_splits sum.splits dest: transaction_list_from_feed)

lemma from_feed_id:
  "from_feed tx \<Longrightarrow> \<exists>i. tx ''transaction_id'' = Some (PStr i)"
  by (auto simp: from_feed_def split: option.splits pyval.splits)

lemma new_of_filter:
  "\<forall>tx\<in>set txs. from_feed tx \<Longrightarrow>
   new_of ids txs = Inr (filter (\<lambda>tx. dict_get tx ''transaction_id'' PNone \<notin> set ids) txs)"
proof (induction txs)
  case Nil
  show ?case by simp
next
  case (Cons tx txs)
  then obtain i where "tx ''transaction_id'' = Some (PStr i)"
    using from_feed_id[of tx] by auto
  with Cons show ?case by (simp add: dict_index_def dict_get_def)
qed

lemma categorized_batch:
  assumes "fst (categorize_batch lib txs n) = Inr rs"
  shows "list_all2 categorized txs rs"
proof -
  from categorize_batch_elements[of lib txs n] assms
  have len: "length rs = length txs"
    and el: "\<And>i. i < length txs \<Longrightarrow> merged_at lib n txs rs i"
    by auto
  have "categorized (txs ! i) (rs ! i)" if "i < length txs" for i
  proof -
    from el[OF that] obtain c m where c: "fst (categorize_transaction lib (txs ! i) m) = Inr c"
      and r: "rs ! i = txs ! i ++ c"
      unfolding merged_at_def by blast
    obtain s sub x where s: "s \<in> set CATEGORIES"
      and "fst (categorize_transaction lib (txs ! i) m) =
             Inr [''primary_category'' \<mapsto> PStr s, ''subcategory'' \<mapsto> sub,
                  ''confidence'' \<mapsto> PFloat x]"
      using categorize_transaction_shape[of lib "txs ! i" m] by blast
    with c have "c = [''primary_category'' \<mapsto> PStr s, ''subcategory'' \<mapsto> sub,
                      ''confidence'' \<mapsto> PFloat x]"
      by simp
    with r s show ?thesis unfolding categorized_def by blast
  qed
  with len show ?thesis by (simp add: list_all2_conv_all_nth)
qed



lemma categorized_category:
  "categorized tx r \<Longrightarrow> \<exists>s. s \<in> set CATEGORIES \<and> r ''primary_category'' = Some (PStr s)"
  unfolding categorized_def by auto

lemma categorized_confidence:
  "categorized tx r \<Longrightarrow> r ''confidence'' = Some (PFloat (confidence_of r))"
  unfolding categorized_def confidence_of_def by auto

lemma numbers_confidences:
  "\<forall>r\<in>set rs. r ''confidence'' = Some (PFloat (confidence_of r)) \<Longrightarrow>
   numbers (map (\<lambda>tx. dict_get tx ''confidence'' (PInt 0)) rs) = Some (map confidence_of rs)"
  by (induction rs) (simp_all add: dict_get_def number_of_def)

lemma py_sum_confidences:
  "\<forall>r\<in>set rs. r ''confidence'' = Some (PFloat (confidence_of r)) \<Longrightarrow>
   py_sum lib (map (\<lambda>tx. dict_get tx ''confidence'' (PInt 0)) rs)
     = Inr (float_sum lib (map confidence_of rs))"
  by (simp add: py_sum_def numbers_confidences)

lemma list_all2_right:
  "list_all2 P xs ys \<Longrightarrow> y \<in> set ys \<Longrightarrow> \<exists>x\<in>set xs. P x y"
  by (induction rule: list_all2_induct) auto

lemma average_confidence_categorized:
  assumes "list_all2 categorized txs rs" and "rs \<noteq> []"
  shows "average_confidence lib rs =
           Inr (PFloat (float_div lib (float_sum lib (map confidence_of rs)) (real (length rs))))"
proof -
  have "\<forall>r\<in>set rs. r ''confidence'' = Some (PFloat (confidence_of r))"
    using list_all2_right[OF assms(1)] categorized_confidence by blast
  from py_sum_confidences[OF this, of lib] assms(2) show ?thesis
    by (simp add: average_confidence_def)
qed

lemma categories_used_categorized:
  assumes "list_all2 categorized txs rs"
  shows "categories_used rs =
           Inr (PInt (int (length (remdups
                  (map (\<lambda>tx. dict_get tx ''primary_category'' (PStr ''Other'')) rs)))))"
proof -
  have "hashable (dict_get r ''primary_category'' (PStr ''Other''))" if "r \<in> set rs" for r
  proof -
    from list_all2_right[OF assms that] obtain tx where "categorized tx r" by blast
    from categorized_category[OF this] show ?thesis
      by (auto simp: dict_get_def hashable_def)
  qed
  then show ?thesis
    by (simp add: categories_used_def Let_def list_all_iff)
qed


lemma make_row_fields:
  assumes "make_row lib r = Inr row"
  shows "primary_category row = dict_get r ''primary_category'' (PStr ''Other'')
         \<and> \<not> synced_to_sheets row"
  using assms by (auto simp: make_row_def split: sum.splits)


lemma store_rows_fields:
  "row \<in> set (fst (store_rows lib rs)) \<Longrightarrow>
   \<not> synced_to_sheets row \<and>
   (\<exists>r\<in>set rs. primary_category row = dict_get r ''primary_category'' (PStr ''Other''))"
proof (induction rs)
  case Nil
  then show ?case by simp
next
  case (Cons r rs)
  show ?case
  proof (cases "make_row lib r")
    case (Inl e)
    with Cons show ?thesis by auto
  next
    case (Inr row')
    with Cons make_row_fields[OF Inr] show ?thesis by auto
  qed
qed

lemma mark_synced_fields:
  "transaction_id (mark_synced r) = transaction_id r"
  "primary_category (mark_synced r) = primary_category r"
  "synced_to_sheets (mark_synced r)"
  by (simp_all add: mark_synced_def)

lemma sync_step_cases:
  "snd (sync_step lib w) = w
   \<or> (\<exists>cells. snd (sync_step lib w) = w\<lparr>sheet := cells\<rparr> \<and> fst (sync_step lib w) = 0)
   \<or> (\<exists>cells. snd (sync_step lib w) = w\<lparr>store := map mark_synced (store w), sheet := cells\<rparr>)"
  by (auto simp: sync_step_def Let_def split: prod.splits option.splits)

lemma run_outcomes:
  obtains
    (fetch_error) e where
      "get_all_transactions_since lib = Inl e"
      "fetch_and_process_transactions lib sync w = (Inl e, w)"
  | (empty_feed)
      "get_all_transactions_since lib = Inr []"
      "fetch_and_process_transactions lib sync w = (Inr (short_stats 0), w)"
  | (nothing_new) txs where
      "get_all_transactions_since lib = Inr txs" "txs \<noteq> []"
      "\<forall>tx\<in>set txs. dict_get tx ''transaction_id'' PNone \<in> set (map transaction_id (store w))"
      "fetch_and_process_transactions lib sync w = (Inr (short_stats (length txs)), w)"
  | (commit_error) txs new cats n e where
      "get_all_transactions_since lib = Inr txs"
      "new = filter (\<lambda>tx. dict_get tx ''transaction_id'' PNone
                            \<notin> set (map transaction_id (store w))) txs"
      "new \<noteq> []"
      "categorize_batch lib new (requests w) = (Inr cats, n)"
      "commit (store w) (fst (store_rows lib cats)) = Inl e"
      "fetch_and_process_transactions lib sync w = (Inl e, w\<lparr>requests := n\<rparr>)"
  | (complete) txs new cats n table sy where
      "get_all_transactions_since lib = Inr txs"
      "\<forall>tx\<in>set txs. from_feed tx"
      "new = filter (\<lambda>tx. dict_get tx ''transaction_id'' PNone
                            \<notin> set (map transaction_id (store w))) txs"
      "new \<noteq> []"
      "categorize_batch lib new (requests w) = (Inr cats, n)"
      "list_all2 categorized new cats"
      "commit (store w) (fst (store_rows lib cats)) = Inr table"
      "sy = (if sync then sync_step lib (w\<lparr>store := table, requests := n\<rparr>)
             else (0, w\<lparr>store := table, requests := n\<rparr>))"
      "fetch_and_process_transactions lib sync w =
         (Inr [''total_fetched'' \<mapsto> PInt (int (length txs)),
               ''new_transactions'' \<mapsto> PInt (int (length new)),
               ''categorized'' \<mapsto> PInt (int (length cats)),
               ''average_confidence'' \<mapsto>
                 PFloat (float_div lib (float_sum lib (map confidence_of cats))
                           (real (length cats))),
               ''synced_to_sheets'' \<mapsto> PInt (int (fst sy)),
               ''categories_used'' \<mapsto>
                 PInt (int (length (remdups
                   (map (\<lambda>tx. dict_get tx ''primary_category'' (PStr ''Other'')) cats))))],
          snd sy)"
proof (cases "get_all_transactions_since lib")
  case (Inl e)
  from fetch_error[OF Inl run_fetch_error[OF Inl]] show ?thesis .
next
  case (Inr txs)
  note feed = get_all_from_feed[OF Inr]
  let ?new = "filter (\<lambda>tx. dict_get tx ''transaction_id'' PNone
                            \<notin> set (map transaction_id (store w))) txs"
  have new: "new_of (map transaction_id (store w)) txs = Inr ?new"
    using feed by (rule new_of_filter)
  show ?thesis
  proof (cases "txs = []")
    case True
    with Inr have "get_all_transactions_since lib = Inr []" by simp
    from empty_feed[OF this run_empty_feed[OF this]] show ?thesis .
  next
    case False
    show ?thesis
    proof (cases "?new = []")
      case True
      then have "\<forall>tx\<in>set txs. dict_get tx ''transaction_id'' PNone
                   \<in> set (map transaction_id (store w))"
        by (simp only: filter_empty_conv) blast
      moreover have "fetch_and_process_transactions lib sync w
                       = (Inr (short_stats (length txs)), w)"
        using Inr False new True by (simp add: run_nothing_new)
      ultimately show ?thesis using nothing_new Inr False by blast
    next
      case nonempty: False
      obtain cats where cats: "fst (categorize_batch lib ?new (requests w)) = Inr cats"
        and len: "length cats = length ?new"
        using categorize_batch_elements[of lib ?new "requests w"] by blast
      define n where "n = snd (categorize_batch lib ?new (requests w))"
      have batch: "categorize_batch lib ?new (requests w) = (Inr cats, n)"
        using cats by (simp add: n_def prod_eq_iff)
      have all2: "list_all2 categorized ?new cats"
        using cats by (rule categorized_batch)
      have cats_ne: "cats \<noteq> []" using len nonempty by auto
      note avg = average_confidence_categorized[OF all2 cats_ne, of lib]
      note used = categories_used_categorized[OF all2]
      show ?thesis
      proof (cases "commit (store w) (fst (store_rows lib cats))")
        case (Inl e)
        have "fetch_and_process_transactions lib sync w = (Inl e, w\<lparr>requests := n\<rparr>)"
          using Inr False new nonempty batch avg Inl by (rule run_commit_error)
        from commit_error[OF Inr refl nonempty batch Inl this] show ?thesis .
      next
        case table: (Inr table)
        define sy where "sy = (if sync then sync_step lib (w\<lparr>store := table, requests := n\<rparr>)
             else (0, w\<lparr>store := table, requests := n\<rparr>))"
        have sy': "sy = (if sync \<and> cats \<noteq> []
                          then sync_step lib (w\<lparr>store := table, requests := n\<rparr>)
                          else (0, w\<lparr>store := table, requests := n\<rparr>))"
          using cats_ne by (simp add: sy_def)
        note run = run_complete[OF Inr False new nonempty batch avg table used sy']
        from complete[OF Inr feed refl nonempty batch all2 table sy_def run] show ?thesis .
      qed
    qed
  qed
qed

lemmas pipeline_defs =
  fetch_and_process_transactions_def get_all_transactions_since_def get_transactions_def
  transaction_dict_def attr_or_def dict_index_def average_confidence_def py_sum_def
  number_of_def make_row_def
  commit_def unique_ids_def sync_step_def sync_transactions_def sheets_data_def
  mark_synced_def categories_used_def hashable_def short_stats_def str_of_def
  sheet_row_def date_cell_def headers_def


lemma commit_table:
  "commit table pending = Inr table' \<Longrightarrow> table' = table @ pending"
  by (simp add: commit_def split: if_splits)







lemma closest_in_find:
  "closest_in s cats = find (\<lambda>cat. contains s (lower cat) \<or> contains (lower cat) s) cats"
  by (induction cats) simp_all

lemma CATEGORIES_nonempty_names: "[] \<notin> set CATEGORIES"
  by (simp add: CATEGORIES_def)

lemma normalize_category_normalized:
  "normalize_category (PStr raw) = Inr (PStr (normalized raw))"
proof (cases "raw \<in> set CATEGORIES")
  case True
  then show ?thesis by (simp add: normalize_category_def normalized_def)
next
  case False
  then have notin: "PStr raw \<notin> set (map PStr CATEGORIES)" by auto
  show ?thesis
  proof (cases "closest_in (lower raw) CATEGORIES")
    case None
    with False notin show ?thesis
      by (simp add: normalize_category_def normalized_def find_closest_category_def
            closest_in_find)
  next
    case (Some cat)
    then have "cat \<in> set CATEGORIES" by (rule closest_in_member)
    with CATEGORIES_nonempty_names have "cat \<noteq> []" by auto
    with Some False notin show ?thesis
      by (simp add: normalize_category_def normalized_def find_closest_category_def
            closest_in_find)
  qed
qed

lemma validate_result_category:
  assumes "validate_result lib (PDict kvs) = Inr c"
    and "map_of kvs ''primary_category'' = Some (PStr raw)"
  shows "c ''primary_category'' = Some (PStr (normalized raw))"
  using assms
  by (auto simp: validate_result_def obj_get_def normalize_category_normalized
        split: sum.splits)

lemma run_store_categories:
  assumes "fetch_and_process_transactions lib sync w = (r, w')"
    and old: "\<forall>row\<in>set (store w). \<exists>s\<in>set CATEGORIES. primary_category row = PStr s"
  shows "\<forall>row\<in>set (store w'). \<exists>s\<in>set CATEGORIES. primary_category row = PStr s"
proof (cases rule: run_outcomes[of lib sync w])
  case (fetch_error e)
  with assms show ?thesis by simp
next
  case empty_feed
  with assms show ?thesis by simp
next
  case (nothing_new txs)
  with assms show ?thesis by simp
next
  case (commit_error txs new cats n e)
  with assms show ?thesis by auto
next
  case (complete txs new cats n table sy)
  have table: "table = store w @ fst (store_rows lib cats)"
    using complete(7) by (rule commit_table)
  have added: "\<exists>s\<in>set CATEGORIES. primary_category row = PStr s"
    if "row \<in> set (fst (store_rows lib cats))" for row
  proof -
    from store_rows_fields[OF that] obtain c where c: "c \<in> set cats"
      and p: "primary_category row = dict_get c ''primary_category'' (PStr ''Other'')"
      by blast
    from list_all2_right[OF complete(6) c] obtain tx where "categorized tx c" by blast
    from categorized_category[OF this] p show ?thesis by (auto simp: dict_get_def)
  qed
  have tab: "\<forall>row\<in>set table. \<exists>s\<in>set CATEGORIES. primary_category row = PStr s"
    unfolding table using old added by auto
  have w': "w' = snd sy" using complete(9) assms(1) by simp
  have "store w' = table \<or> store w' = map mark_synced table"
    unfolding w' complete(8)
    using sync_step_cases[of lib "w\<lparr>store := table, requests := n\<rparr>"] by auto
  then show ?thesis
  proof
    assume "store w' = table"
    with tab show ?thesis by simp
  next
    assume "store w' = map mark_synced table"
    with tab show ?thesis by (auto simp: mark_synced_fields)
  qed
qed

text \<open>
  Claim C3. The \<open>primary_category\<close> of every categorization result is one of the 13
  entries of \<open>CATEGORIES\<close>. A name the classifier gives is normalized as the
  specification says: it stays when it is in the list, otherwise it becomes the first
  entry that contains it or is contained in it, letter case ignored, and \<open>Other\<close> when
  there is none. Hence a run keeps the store closed: if every row had a category of the
  list before the run, every row has one after it.
\<close>

theorem primary_category_in_enumeration:
  "(\<exists>c s. fst (categorize_transaction lib tx n) = Inr c
       \<and> c ''primary_category'' = Some (PStr s) \<and> s \<in> set CATEGORIES)
   \<and> (\<forall>t kvs raw c. classifier_response lib tx n = Inr t \<longrightarrow>
         parse_response lib t = Inr (PDict kvs) \<longrightarrow>
         map_of kvs ''primary_category'' = Some (PStr raw) \<longrightarrow>
         categorize_try lib tx n = Inr c \<longrightarrow>
         c ''primary_category'' = Some (PStr (normalized raw)))
   \<and> (\<forall>r w'. fetch_and_process_transactions lib sync w = (r, w') \<longrightarrow>
         (\<forall>row\<in>set (store w). \<exists>s\<in>set CATEGORIES. primary_category row = PStr s) \<longrightarrow>
         (\<forall>row\<in>set (store w'). \<exists>s\<in>set CATEGORIES. primary_category row = PStr s))"
proof (intro conjI allI impI)
  obtain s sub x where "s \<in> set CATEGORIES"
    and "fst (categorize_transaction lib tx n) =
       Inr [''primary_category'' \<mapsto> PStr s, ''subcategory'' \<mapsto> sub, ''confidence'' \<mapsto> PFloat x]"
    using categorize_transaction_shape[of lib tx n] by blast
  then show "\<exists>c s. fst (categorize_transaction lib tx n) = Inr c
       \<and> c ''primary_category'' = Some (PStr s) \<and> s \<in> set CATEGORIES"
    by (intro exI[of _ "[''primary_category'' \<mapsto> PStr s, ''subcategory'' \<mapsto> sub,
                         ''confidence'' \<mapsto> PFloat x]"] exI[of _ s]) simp
next
  fix t kvs raw c
  assume "classifier_response lib tx n = Inr t" "parse_response lib t = Inr (PDict kvs)"
    "map_of kvs ''primary_category'' = Some (PStr raw)" "categorize_try lib tx n = Inr c"
  then have "validate_result lib (PDict kvs) = Inr c"
    by (simp add: categorize_try_def)
  then show "c ''primary_category'' = Some (PStr (normalized raw))"
    using \<open>map_of kvs ''primary_category'' = Some (PStr raw)\<close>
    by (rule validate_result_category)
next
  fix r w'
  assume "fetch_and_process_transactions lib sync w = (r, w')"
    "\<forall>row\<in>set (store w). \<exists>s\<in>set CATEGORIES. primary_category row = PStr s"
  then show "\<forall>row\<in>set (store w'). \<exists>s\<in>set CATEGORIES. primary_category row = PStr s"
    by (rule run_store_categories)
qed

theorem primary_category_in_enumeration_witness:
  "fst (categorize_transaction
          (demo_env (\<lambda>n. Inr (''```json\<newline>'' @ json_food @ ''\<newline>```''))
             [demo_plaid ''t1''] None None) demo_tx 0)
     = Inr [''primary_category'' \<mapsto> PStr ''Food & Dining'',
            ''subcategory'' \<mapsto> PStr ''Groceries'', ''confidence'' \<mapsto> PFloat 0.6]
   \<and> normalized ''food'' = ''Food & Dining''
   \<and> normalized ''Crypto'' = ''Other''
   \<and> list_all (\<lambda>row. primary_category row \<in> set (map PStr CATEGORIES))
        (store (snd (fetch_and_process_transactions
           (demo_env (\<lambda>n. Inr (''```json\<newline>'' @ json_food @ ''\<newline>```''))
              [demo_plaid ''t1''] None None) False empty_world)))"
proof -
  let ?lib = "demo_env (\<lambda>n. Inr (''```json\<newline>'' @ json_food @ ''\<newline>```''))
                [demo_plaid ''t1''] None None"
  let ?kvs = "[(''primary_category'', PStr ''food''), (''subcategory'', PStr ''Groceries''),
               (''confidence'', PFloat 0.6)]"
  let ?c = "[''primary_category'' \<mapsto> PStr ''Food & Dining'',
             ''subcategory'' \<mapsto> PStr ''Groceries'', ''confidence'' \<mapsto> PFloat 0.6]"
  note inst = primary_category_in_enumeration[of ?lib demo_tx 0 False empty_world]
  have t: "classifier_response ?lib demo_tx 0 = Inr (''```json\<newline>'' @ json_food @ ''\<newline>```'')"
    by (simp add: classifier_response_def transaction_desc_def abs_amount_def dict_get_def
          demo_defs strip_def is_space_def)
  have p: "parse_response ?lib (''```json\<newline>'' @ json_food @ ''\<newline>```'') = Inr (PDict ?kvs)"
    by (simp add: parse_response_def extract_json_text_def parse_json_def starts_with_def
          split_second_def strip_def is_space_def demo_defs)
  have k: "map_of ?kvs ''primary_category'' = Some (PStr ''food'')" by simp
  have c: "categorize_try ?lib demo_tx 0 = Inr ?c"
    by (simp add: categorize_defs demo_defs)
  have n2: "normalized ''Crypto'' = ''Other''"
    by code_simp
  have "?c ''primary_category'' = Some (PStr (normalized ''food''))"
    using inst[THEN conjunct2, THEN conjunct1, rule_format, OF t p k c] .
  then have n1: "normalized ''food'' = ''Food & Dining''" by simp
  have 1: "fst (categorize_transaction ?lib demo_tx 0) = Inr ?c"
    using c by (simp add: categorize_transaction_result)
  have old: "\<forall>row\<in>set (store empty_world). \<exists>s\<in>set CATEGORIES. primary_category row = PStr s"
    by (simp add: empty_world_def)
  have "\<forall>r w'. fetch_and_process_transactions ?lib False empty_world = (r, w') \<longrightarrow>
         (\<forall>row\<in>set (store empty_world). \<exists>s\<in>set CATEGORIES. primary_category row = PStr s) \<longrightarrow>
         (\<forall>row\<in>set (store w'). \<exists>s\<in>set CATEGORIES. primary_category row = PStr s)"
    using inst by (elim conjE)
  from this[THEN spec, THEN spec, THEN mp, OF prod.collapse[symmetric], THEN mp, OF old]
  have "\<forall>row\<in>set (store (snd (fetch_and_process_transactions ?lib False empty_world))).
          \<exists>s\<in>set CATEGORIES. primary_category row = PStr s" .
  then have 4: "list_all (\<lambda>row. primary_category row \<in> set (map PStr CATEGORIES))
        (store (snd (fetch_and_process_transactions ?lib False empty_world)))"
    unfolding list_all_iff by fastforce
  show ?thesis using 1 n1 n2 4 by (intro conjI)
qed

lemma from_feed_categorize:
  assumes "from_feed tx"
  shows "categorize_transaction lib tx n = (Inr (categorization_of lib tx n), Suc n)"
proof -
  from assms obtain a where "tx ''amount'' = Some (PFloat a)"
    unfolding from_feed_def by (auto split: option.splits pyval.splits)
  then have "transaction_desc lib tx \<noteq> Inl e" for e
    by (simp add: transaction_desc_def dict_get_def abs_amount_def)
  then have n: "snd (categorize_transaction lib tx n) = Suc n"
    by (auto simp: categorize_transaction_def requests_made_def split: sum.splits)
  obtain c where c: "fst (categorize_transaction lib tx n) = Inr c"
    using categorize_transaction_shape[of lib tx n] by blast
  then have "categorization_of lib tx n = c" by (simp add: categorization_of_def)
  with c n show ?thesis by (simp add: prod_eq_iff)
qed

lemma categorize_batch_from_feed:
  "\<forall>tx\<in>set txs. from_feed tx \<Longrightarrow>
   categorize_batch lib txs n =
     (Inr (map (\<lambda>i. txs ! i ++ categorization_of lib (txs ! i) (n + i)) [0..<length txs]),
      n + length txs)"
proof (induction txs arbitrary: n)
  case Nil
  show ?case by simp
next
  case (Cons tx txs)
  have first: "categorize_transaction lib tx n = (Inr (categorization_of lib tx n), Suc n)"
    using Cons.prems by (simp add: from_feed_categorize)
  have rest: "categorize_batch lib txs (Suc n) =
     (Inr (map (\<lambda>i. txs ! i ++ categorization_of lib (txs ! i) (Suc n + i)) [0..<length txs]),
      Suc n + length txs)"
    using Cons.prems by (intro Cons.IH) simp
  have "map (\<lambda>i. (tx # txs) ! i ++ categorization_of lib ((tx # txs) ! i) (n + i))
          [0..<length (tx # txs)]
        = (tx ++ categorization_of lib tx n)
          # map (\<lambda>i. txs ! i ++ categorization_of lib (txs ! i) (Suc n + i)) [0..<length txs]"
    by (simp add: map_upt_Suc del: upt_Suc)
  then show ?case by (simp add: first rest del: upt_Suc)
qed

lemma categorization_of_shape:
  "\<exists>s sub x. s \<in> set CATEGORIES \<and>
     categorization_of lib tx m =
       [''primary_category'' \<mapsto> PStr s, ''subcategory'' \<mapsto> sub, ''confidence'' \<mapsto> PFloat x]"
proof -
  obtain s sub x where "s \<in> set CATEGORIES"
    "fst (categorize_transaction lib tx m) =
       Inr [''primary_category'' \<mapsto> PStr s, ''subcategory'' \<mapsto> sub, ''confidence'' \<mapsto> PFloat x]"
    using categorize_transaction_shape[of lib tx m] by blast
  then show ?thesis by (auto simp: categorization_of_def)
qed

lemma categorization_of_result:
  "fst (categorize_transaction lib tx m) = Inr (categorization_of lib tx m)"
  using categorize_transaction_shape[of lib tx m] by (auto simp: categorization_of_def)

lemma make_row_stored_row:
  assumes "from_feed tx"
  shows "make_row lib (tx ++ categorization_of lib tx m)
           = Inr (stored_row lib tx (categorization_of lib tx m))"
proof -
  obtain s sub x where c: "categorization_of lib tx m =
       [''primary_category'' \<mapsto> PStr s, ''subcategory'' \<mapsto> sub, ''confidence'' \<mapsto> PFloat x]"
    using categorization_of_shape[of lib tx m] by blast
  from assms obtain v1 v2 v3 v4 v5 where
    "tx ''transaction_id'' = Some v1" "tx ''account_id'' = Some v2" "tx ''amount'' = Some v3"
    "tx ''date'' = Some v4" "tx ''name'' = Some v5"
    unfolding from_feed_def by (auto split: option.splits)
  then show ?thesis
    unfolding c by (simp add: make_row_def stored_row_def dict_index_def dict_get_def)
qed

lemma store_rows_map:
  "\<forall>i\<in>set js. make_row lib (f i) = Inr (g i) \<Longrightarrow>
   store_rows lib (map f js) = (map g js, length js)"
  by (induction js) simp_all

lemma confidence_of_updated:
  "confidence_of (tx ++ categorization_of lib tx m) = confidence_of (categorization_of lib tx m)"
proof -
  obtain s sub x where c: "categorization_of lib tx m =
       [''primary_category'' \<mapsto> PStr s, ''subcategory'' \<mapsto> sub, ''confidence'' \<mapsto> PFloat x]"
    using categorization_of_shape[of lib tx m] by blast
  show ?thesis unfolding c by (simp add: confidence_of_def)
qed

lemma mark_synced_update: "mark_synced r = r\<lparr>synced_to_sheets := True\<rparr>"
  by (cases r) (simp add: mark_synced_def)

lemma sheet_row_cells:
  "sheet_row lib (sheets_data r) =
     [case date r of
        PDateTime y m d \<Rightarrow> PStr (strftime lib y m d)
      | PStr s \<Rightarrow> PStr s
      | v \<Rightarrow> PStr (py_str lib v),
      name r, merchant_name r, amount r, primary_category r, subcategory r, description r,
      category_confidence r, transaction_id r]"
  by (cases "date r")
     (simp_all add: sheet_row_def sheets_data_def dict_get_def date_cell_def str_of_def)

lemma new_of_new_in:
  "\<forall>tx\<in>set txs. from_feed tx \<Longrightarrow>
   new_of (map transaction_id (store w)) txs = Inr (new_in (store w) txs)"
  unfolding new_in_def by (rule new_of_filter)

text \<open>
  What a run does when it finds new transactions and the commit succeeds, with the
  categorized transactions and the added rows written out.
\<close>

lemma run_with_new:
  assumes run: "fetch_and_process_transactions lib sync w = (Inr stats, w')"
    and feed: "get_all_transactions_since lib = Inr txs"
    and new: "new = new_in (store w) txs" "new \<noteq> []"
    and cats: "cats = map (\<lambda>i. new ! i ++ categorization_of lib (new ! i) (requests w + i))
                          [0..<length new]"
    and added: "added = map (\<lambda>i. stored_row lib (new ! i)
                                     (categorization_of lib (new ! i) (requests w + i)))
                            [0..<length new]"
    and sy: "sy = (if sync then sync_step lib (w\<lparr>store := store w @ added,
                                                 requests := requests w + length new\<rparr>)
                   else (0, w\<lparr>store := store w @ added,
                              requests := requests w + length new\<rparr>))"
  shows "w' = snd sy
    \<and> stats ''new_transactions'' = Some (PInt (int (length new)))
    \<and> stats ''categorized'' = Some (PInt (int (length new)))
    \<and> stats ''average_confidence''
         = Some (PFloat (float_div lib (float_sum lib (map confidence_of cats))
                           (real (length new))))
    \<and> stats ''synced_to_sheets'' = Some (PInt (int (fst sy)))"
proof (cases rule: run_outcomes[of lib sync w])
  case (fetch_error e)
  with run show ?thesis by simp
next
  case empty_feed
  with feed new show ?thesis by (simp add: new_in_def)
next
  case (nothing_new txs')
  with feed have "txs' = txs" by simp
  with nothing_new(3) have "new_in (store w) txs = []"
    unfolding new_in_def by (simp only: filter_empty_conv) blast
  with new show ?thesis by simp
next
  case (commit_error txs' new' cats' n e)
  with run show ?thesis by simp
next
  case (complete txs' new' cats' n table sy')
  from feed complete(1) have txs: "txs' = txs" by simp
  have new': "new' = new" unfolding complete(3) new(1) new_in_def txs ..
  have ff: "\<forall>tx\<in>set new. from_feed tx"
    using complete(2) unfolding txs new(1) new_in_def by simp
  from categorize_batch_from_feed[OF ff, of lib "requests w"] complete(5)[unfolded new']
  have cats': "cats' = cats" and n: "n = requests w + length new"
    unfolding cats by simp_all
  have rows: "store_rows lib cats = (added, length new)"
    unfolding cats added
    using store_rows_map[of "[0..<length new]" lib
        "\<lambda>i. new ! i ++ categorization_of lib (new ! i) (requests w + i)"
        "\<lambda>i. stored_row lib (new ! i) (categorization_of lib (new ! i) (requests w + i))"]
      ff make_row_stored_row
    by simp
  have table: "table = store w @ added"
    using commit_table[OF complete(7)] unfolding cats' rows by simp
  have sy': "sy' = sy" unfolding complete(8) sy table n ..
  have len: "length cats = length new" unfolding cats by simp
  from run complete(9) have w': "w' = snd sy" and
    stats: "stats = [''total_fetched'' \<mapsto> PInt (int (length txs')),
               ''new_transactions'' \<mapsto> PInt (int (length new')),
               ''categorized'' \<mapsto> PInt (int (length cats')),
               ''average_confidence'' \<mapsto>
                 PFloat (float_div lib (float_sum lib (map confidence_of cats'))
                           (real (length cats'))),
               ''synced_to_sheets'' \<mapsto> PInt (int (fst sy')),
               ''categories_used'' \<mapsto>
                 PInt (int (length (remdups
                   (map (\<lambda>tx. dict_get tx ''primary_category'' (PStr ''Other'')) cats'))))]"
    unfolding sy' by simp_all
  show ?thesis unfolding stats new' cats' sy' using w' len by simp
qed

lemma confidence_of_fallback: "confidence_of fallback = 0"
  by (simp add: confidence_of_def fallback_def)

text \<open>
  Claim C8. In a run that returns its statistics and whose new transactions, the fetched
  ones with no stored row, are \<open>new\<close>, not empty: \<open>categorized\<close> and \<open>new_transactions\<close>
  are the length of \<open>new\<close>, and \<open>average_confidence\<close> is the library's float sum of the
  confidences of all of them, in order, divided by their number, which is their
  arithmetic mean when these float operations are exact. The confidence of transaction
  \<open>i\<close> is the one \<open>categorize_transaction\<close> returns for it as request
  \<open>requests w + i\<close>: the fallback's 0.0 when that categorization failed.
\<close>

theorem average_confidence_over_whole_batch:
  assumes run: "fetch_and_process_transactions lib sync w = (Inr stats, w')"
    and feed: "get_all_transactions_since lib = Inr txs"
    and new: "new = new_in (store w) txs" "new \<noteq> []"
  shows "stats ''new_transactions'' = Some (PInt (int (length new)))
    \<and> stats ''categorized'' = Some (PInt (int (length new)))
    \<and> stats ''average_confidence''
         = Some (PFloat (float_div lib
              (float_sum lib
                 (map (\<lambda>i. confidence_of (categorization_of lib (new ! i) (requests w + i)))
                      [0..<length new]))
              (real (length new))))
    \<and> (\<forall>i<length new.
          fst (categorize_transaction lib (new ! i) (requests w + i))
            = Inr (categorization_of lib (new ! i) (requests w + i)))
    \<and> (\<forall>i<length new.
          (\<exists>e. categorize_try lib (new ! i) (requests w + i) = Inl e) \<longrightarrow>
          categorization_of lib (new ! i) (requests w + i) = fallback
          \<and> confidence_of (categorization_of lib (new ! i) (requests w + i)) = 0)
    \<and> (float_sum lib = sum_list \<longrightarrow> float_div lib = (\<lambda>a b. a / b) \<longrightarrow>
          stats ''average_confidence''
            = Some (PFloat
                (sum_list
                   (map (\<lambda>i. confidence_of (categorization_of lib (new ! i) (requests w + i)))
                        [0..<length new])
                 / real (length new))))"
proof -
  let ?c = "\<lambda>i. categorization_of lib (new ! i) (requests w + i)"
  note facts = run_with_new[OF run feed new refl refl refl]
  have conf: "map confidence_of (map (\<lambda>i. new ! i ++ ?c i) [0..<length new])
                = map (\<lambda>i. confidence_of (?c i)) [0..<length new]"
    by (simp add: confidence_of_updated)
  have 1: "stats ''new_transactions'' = Some (PInt (int (length new)))"
    and 2: "stats ''categorized'' = Some (PInt (int (length new)))"
    using facts by simp_all
  have 3: "stats ''average_confidence''
         = Some (PFloat (float_div lib
              (float_sum lib (map (\<lambda>i. confidence_of (?c i)) [0..<length new]))
              (real (length new))))"
    using facts unfolding conf by (elim conjE)
  have 4: "\<forall>i<length new. fst (categorize_transaction lib (new ! i) (requests w + i)) = Inr (?c i)"
    by (simp add: categorization_of_result)
  have 5: "\<forall>i<length new.
          (\<exists>e. categorize_try lib (new ! i) (requests w + i) = Inl e) \<longrightarrow>
          ?c i = fallback \<and> confidence_of (?c i) = 0"
    by (auto simp: categorization_of_def categorize_transaction_result confidence_of_fallback)
  have 6: "float_sum lib = sum_list \<longrightarrow> float_div lib = (\<lambda>a b. a / b) \<longrightarrow>
          stats ''average_confidence''
            = Some (PFloat (sum_list (map (\<lambda>i. confidence_of (?c i)) [0..<length new])
                            / real (length new)))"
    using 3 by simp
  show ?thesis using 1 2 3 4 5 6 by (intro conjI)
qed

lemma demo_feed_three:
  "get_all_transactions_since (demo_env answers
      [demo_plaid ''t1'', demo_plaid ''t2'', demo_plaid ''t3''] sid upd)
   = Inr [demo_dict ''t1'', demo_dict ''t2'', demo_dict ''t3'']"
  by (simp add: get_all_transactions_since_def get_transactions_def transaction_dict_def
        attr_or_def demo_env_def demo_plaid_def demo_dict_def)

lemma demo_categorization_shopping:
  "answers m = Inr json_shopping \<Longrightarrow>
   categorization_of (demo_env answers feed sid upd) (demo_dict i) m =
     [''primary_category'' \<mapsto> PStr ''Shopping'', ''subcategory'' \<mapsto> PStr ''Books'',
      ''confidence'' \<mapsto> PFloat 0.9]"
  by (simp add: categorization_of_def categorize_defs demo_defs demo_dict_def)

lemma demo_categorization_food:
  "answers m = Inr json_food \<Longrightarrow>
   categorization_of (demo_env answers feed sid upd) (demo_dict i) m =
     [''primary_category'' \<mapsto> PStr ''Food & Dining'', ''subcategory'' \<mapsto> PStr ''Groceries'',
      ''confidence'' \<mapsto> PFloat 0.6]"
  by (simp add: categorization_of_def categorize_defs demo_defs demo_dict_def)

lemma demo_categorization_failed:
  "answers m = Inl e \<Longrightarrow>
   categorization_of (demo_env answers feed sid upd) (demo_dict i) m = fallback"
  by (simp add: categorization_of_def categorize_transaction_def categorize_try_def
        classifier_response_def transaction_desc_def abs_amount_def dict_get_def
        demo_env_def demo_dict_def)

lemma demo_run_three:
  "case fetch_and_process_transactions
          (demo_env (\<lambda>n. if n = 0 then Inr json_shopping else if n = 1 then Inl ApiError
                          else Inr json_food)
             [demo_plaid ''t1'', demo_plaid ''t2'', demo_plaid ''t3''] None None) False
          empty_world of
     (Inl e, w') \<Rightarrow> False
   | (Inr stats, w') \<Rightarrow> True"
  by (simp add: pipeline_defs categorize_defs demo_defs Let_def)

theorem average_confidence_over_whole_batch_witness:
  "\<exists>stats w'.
     fetch_and_process_transactions
       (demo_env (\<lambda>n. if n = 0 then Inr json_shopping else if n = 1 then Inl ApiError
                       else Inr json_food)
          [demo_plaid ''t1'', demo_plaid ''t2'', demo_plaid ''t3''] None None) False empty_world
       = (Inr stats, w')
     \<and> stats ''new_transactions'' = Some (PInt 3)
     \<and> stats ''categorized'' = Some (PInt 3)
     \<and> stats ''average_confidence'' = Some (PFloat ((0.9 + 0 + 0.6) / 3))"
proof -
  let ?answers = "\<lambda>n::nat. if n = 0 then Inr json_shopping else if n = 1 then Inl ApiError
                       else Inr json_food"
  let ?lib = "demo_env ?answers [demo_plaid ''t1'', demo_plaid ''t2'', demo_plaid ''t3'']
                None None"
  let ?new = "[demo_dict ''t1'', demo_dict ''t2'', demo_dict ''t3'']"
  obtain r w' where run: "fetch_and_process_transactions ?lib False empty_world = (r, w')"
    by (cases "fetch_and_process_transactions ?lib False empty_world")
  with demo_run_three obtain stats where r: "r = Inr stats"
    by (cases r) simp_all
  have new: "?new = new_in (store empty_world) ?new"
    by (simp add: new_in_def empty_world_def)
  have ne: "?new \<noteq> []" by simp
  note inst = average_confidence_over_whole_batch[OF run[unfolded r] demo_feed_three new ne]
  have c0: "categorization_of ?lib (demo_dict ''t1'') 0 =
     [''primary_category'' \<mapsto> PStr ''Shopping'', ''subcategory'' \<mapsto> PStr ''Books'',
      ''confidence'' \<mapsto> PFloat 0.9]"
    by (rule demo_categorization_shopping) simp
  have c1: "categorization_of ?lib (demo_dict ''t2'') (Suc 0) = fallback"
    by (rule demo_categorization_failed[of _ _ ApiError]) simp
  have c2: "categorization_of ?lib (demo_dict ''t3'') (Suc (Suc 0)) =
     [''primary_category'' \<mapsto> PStr ''Food & Dining'', ''subcategory'' \<mapsto> PStr ''Groceries'',
      ''confidence'' \<mapsto> PFloat 0.6]"
    by (rule demo_categorization_food) simp
  have up: "[0..<length ?new] = [0, Suc 0, Suc (Suc 0)]"
    by (simp add: upt_rec)
  have sum: "float_sum ?lib = sum_list" and div: "float_div ?lib = (\<lambda>a b. a / b)"
    by (simp_all add: demo_env_def)
  have 1: "stats ''new_transactions'' = Some (PInt 3)"
    using inst by simp
  have 2: "stats ''categorized'' = Some (PInt 3)"
    using inst by simp
  have "stats ''average_confidence''
          = Some (PFloat (sum_list (map (\<lambda>i. confidence_of
                     (categorization_of ?lib (?new ! i) (requests empty_world + i)))
                        [0..<length ?new]) / real (length ?new)))"
    using inst sum div by (elim conjE) (erule impE, assumption, erule impE, assumption+)
  then have 3: "stats ''average_confidence'' = Some (PFloat ((0.9 + 0 + 0.6) / 3))"
    unfolding up by (simp add: empty_world_def c0 c1 c2 confidence_of_def fallback_def)
  show ?thesis using run[unfolded r] 1 2 3 by (intro exI[of _ stats] exI[of _ w'] conjI)
qed

lemma sync_transactions_pushes:
  assumes "spreadsheet_id lib = Some sid" "sid \<noteq> []" "ensure_sheet lib = None"
    "values_clear lib = None" "values_update lib = None"
  shows "sync_transactions lib txs cells = (None, headers # map (sheet_row lib) txs)"
  using assms by (simp add: sync_transactions_def)

lemma sync_step_pushes:
  assumes "spreadsheet_id lib = Some sid" "sid \<noteq> []" "ensure_sheet lib = None"
    "values_clear lib = None" "values_update lib = None"
    and "unsynced_rows (store w) \<noteq> []"
  shows "sync_step lib w =
           (length (unsynced_rows (store w)),
            w\<lparr>store := map mark_synced (store w),
              sheet := headers # map (sheet_row lib) (map sheets_data (unsynced_rows (store w)))\<rparr>)"
  using assms(6) sync_transactions_pushes[OF assms(1-5)]
  by (simp add: sync_step_def unsynced_rows_def Let_def)

text \<open>
  Claim C7 says that with sync enabled the sync step pushes every unsynced row and that
  \<open>synced_to_sheets\<close> is the number of rows pushed. Three runs with sync enabled and one
  unsynced row of an earlier run in the store: when nothing is new the run returns
  before the sync step and pushes nothing; when the write to the sheet raises, no row is
  on the sheet and the count is 0; without a configured spreadsheet nothing is sent, yet
  the count is 2.
\<close>

theorem sync_skipped_or_failed_counterexample:
  "(case fetch_and_process_transactions
           (demo_env (\<lambda>n. Inr json_shopping) [demo_plaid ''t0''] (Some ''sheet-1'') None) True
           \<lparr>store = [demo_row ''t0'' False], sheet = [], requests = 0\<rparr> of
      (Inl e, w') \<Rightarrow> False
    | (Inr stats, w') \<Rightarrow>
        stats ''synced_to_sheets'' = Some (PInt 0) \<and> sheet w' = []
        \<and> map synced_to_sheets (store w') = [False])
   \<and> (case fetch_and_process_transactions
           (demo_env (\<lambda>n. Inr json_shopping) [demo_plaid ''t1''] (Some ''sheet-1'')
              (Some HttpError)) True
           \<lparr>store = [demo_row ''t0'' False], sheet = [], requests = 0\<rparr> of
      (Inl e, w') \<Rightarrow> False
    | (Inr stats, w') \<Rightarrow>
        stats ''synced_to_sheets'' = Some (PInt 0) \<and> sheet w' = []
        \<and> map synced_to_sheets (store w') = [False, False])
   \<and> (case fetch_and_process_transactions
           (demo_env (\<lambda>n. Inr json_shopping) [demo_plaid ''t1''] None None) True
           \<lparr>store = [demo_row ''t0'' False], sheet = [], requests = 0\<rparr> of
      (Inl e, w') \<Rightarrow> False
    | (Inr stats, w') \<Rightarrow>
        stats ''synced_to_sheets'' = Some (PInt 2) \<and> sheet w' = []
        \<and> map synced_to_sheets (store w') = [True, True])"
  by (simp add: pipeline_defs categorize_defs demo_defs Let_def)

text \<open>
  Claim C7, as amended. In a run with sync enabled that finds new transactions, with a
  spreadsheet configured and no request to it failing, the sheet afterwards holds the
  header and one row of nine cells for every stored row that was not yet synced, those
  of earlier runs first and then the rows this run added; all rows of the store are
  marked synced, and \<open>synced_to_sheets\<close> is the number of rows pushed: the earlier
  unsynced rows plus the new ones, so it can exceed \<open>new_transactions\<close>.
\<close>

theorem sync_pushes_all_unsynced_rows:
  assumes run: "fetch_and_process_transactions lib True w = (Inr stats, w')"
    and feed: "get_all_transactions_since lib = Inr txs"
    and new: "new = new_in (store w) txs" "new \<noteq> []"
    and mirror: "spreadsheet_id lib = Some sid" "sid \<noteq> []" "ensure_sheet lib = None"
      "values_clear lib = None" "values_update lib = None"
    and added: "added = map (\<lambda>i. stored_row lib (new ! i)
                                     (categorization_of lib (new ! i) (requests w + i)))
                            [0..<length new]"
    and pushed: "pushed = filter (\<lambda>r. \<not> synced_to_sheets r) (store w) @ added"
  shows "sheet w' =
           map PStr [''Date'', ''Name'', ''Merchant'', ''Amount'', ''Primary Category'',
                     ''Subcategory'', ''Description'', ''Confidence'', ''Transaction ID'']
           # map (\<lambda>r. [case date r of
                          PDateTime y m d \<Rightarrow> PStr (strftime lib y m d)
                        | PStr s \<Rightarrow> PStr s
                        | v \<Rightarrow> PStr (py_str lib v),
                        name r, merchant_name r, amount r, primary_category r, subcategory r,
                        description r, category_confidence r, transaction_id r])
                 pushed
    \<and> store w' = map (\<lambda>r. r\<lparr>synced_to_sheets := True\<rparr>) (store w @ added)
    \<and> stats ''synced_to_sheets'' = Some (PInt (int (length pushed)))
    \<and> stats ''new_transactions'' = Some (PInt (int (length new)))
    \<and> length pushed = length (filter (\<lambda>r. \<not> synced_to_sheets r) (store w)) + length new"
proof -
  let ?w1 = "w\<lparr>store := store w @ added, requests := requests w + length new\<rparr>"
  have sy: "sync_step lib ?w1 = (if True then sync_step lib ?w1 else (0, ?w1))" by simp
  note facts = run_with_new[OF run feed new refl added sy]
  have un: "unsynced_rows (store ?w1) = pushed"
    unfolding pushed added by (simp add: unsynced_rows_def stored_row_def)
  have len: "length pushed = length (filter (\<lambda>r. \<not> synced_to_sheets r) (store w)) + length new"
    unfolding pushed added by simp
  have "pushed \<noteq> []" using len new(2) by auto
  then have ne: "unsynced_rows (store ?w1) \<noteq> []" unfolding un .
  have step: "sync_step lib ?w1 =
           (length pushed,
            ?w1\<lparr>store := map mark_synced (store ?w1),
              sheet := headers # map (sheet_row lib) (map sheets_data pushed)\<rparr>)"
    using sync_step_pushes[OF mirror ne] unfolding un .
  have w': "w' = snd (sync_step lib ?w1)" using facts by (elim conjE)
  have 1: "sheet w' =
           map PStr [''Date'', ''Name'', ''Merchant'', ''Amount'', ''Primary Category'',
                     ''Subcategory'', ''Description'', ''Confidence'', ''Transaction ID'']
           # map (\<lambda>r. [case date r of
                          PDateTime y m d \<Rightarrow> PStr (strftime lib y m d)
                        | PStr s \<Rightarrow> PStr s
                        | v \<Rightarrow> PStr (py_str lib v),
                        name r, merchant_name r, amount r, primary_category r, subcategory r,
                        description r, category_confidence r, transaction_id r])
                 pushed"
    unfolding w' step by (simp add: headers_def sheet_row_cells comp_def)
  have 2: "store w' = map (\<lambda>r. r\<lparr>synced_to_sheets := True\<rparr>) (store w @ added)"
    unfolding w' step by (simp add: mark_synced_update)
  have 3: "stats ''synced_to_sheets'' = Some (PInt (int (length pushed)))"
    using facts unfolding step by simp
  have 4: "stats ''new_transactions'' = Some (PInt (int (length new)))"
    using facts by (elim conjE)
  show ?thesis using 1 2 3 4 len by (intro conjI)
qed

lemma demo_feed_one:
  "get_all_transactions_since (demo_env answers [demo_plaid i] sid upd) = Inr [demo_dict i]"
  by (simp add: get_all_transactions_since_def get_transactions_def transaction_dict_def
        attr_or_def demo_env_def demo_plaid_def demo_dict_def)

lemma demo_run_sync:
  "case fetch_and_process_transactions
          (demo_env (\<lambda>n. Inr json_shopping) [demo_plaid ''t1''] (Some ''sheet-1'') None) True
          \<lparr>store = [demo_row ''t0'' False], sheet = [], requests = 0\<rparr> of
     (Inl e, w') \<Rightarrow> False
   | (Inr stats, w') \<Rightarrow> True"
  by (simp add: pipeline_defs categorize_defs demo_defs Let_def)

theorem sync_pushes_all_unsynced_rows_witness:
  "\<exists>stats w'.
     fetch_and_process_transactions
       (demo_env (\<lambda>n. Inr json_shopping) [demo_plaid ''t1''] (Some ''sheet-1'') None) True
       \<lparr>store = [demo_row ''t0'' False], sheet = [], requests = 0\<rparr> = (Inr stats, w')
     \<and> stats ''new_transactions'' = Some (PInt 1)
     \<and> stats ''synced_to_sheets'' = Some (PInt 2)
     \<and> sheet w' =
          [map PStr [''Date'', ''Name'', ''Merchant'', ''Amount'', ''Primary Category'',
                     ''Subcategory'', ''Description'', ''Confidence'', ''Transaction ID''],
           [PStr ''2024-01-05'', PStr ''Bakery'', PNone, PFloat 3, PStr ''Food & Dining'',
            PStr ''Bakery'', PNone, PFloat 0.8, PStr ''t0''],
           [PStr ''2024-01-05'', PStr ''Book shop'', PNone, PFloat 12.5, PStr ''Shopping'',
            PStr ''Books'', PStr ''Book shop'', PFloat 0.9, PStr ''t1'']]
     \<and> map synced_to_sheets (store w') = [True, True]
     \<and> map transaction_id (store w') = [PStr ''t0'', PStr ''t1'']"
proof -
  let ?lib = "demo_env (\<lambda>n. Inr json_shopping) [demo_plaid ''t1''] (Some ''sheet-1'') None"
  let ?w = "\<lparr>store = [demo_row ''t0'' False], sheet = [], requests = 0\<rparr>"
  let ?c = "[''primary_category'' \<mapsto> PStr ''Shopping'', ''subcategory'' \<mapsto> PStr ''Books'',
             ''confidence'' \<mapsto> PFloat 0.9]"
  obtain r w' where run: "fetch_and_process_transactions ?lib True ?w = (r, w')"
    by (cases "fetch_and_process_transactions ?lib True ?w")
  with demo_run_sync obtain stats where r: "r = Inr stats"
    by (cases r) simp_all
  have new: "[demo_dict ''t1''] = new_in (store ?w) [demo_dict ''t1'']"
    by (simp add: new_in_def demo_row_def demo_dict_def dict_get_def)
  have ne: "[demo_dict ''t1''] \<noteq> []" by simp
  have mirror: "spreadsheet_id ?lib = Some ''sheet-1''" "''sheet-1'' \<noteq> []"
    "ensure_sheet ?lib = None" "values_clear ?lib = None" "values_update ?lib = None"
    by (simp_all add: demo_env_def)
  have c: "categorization_of ?lib (demo_dict ''t1'') 0 = ?c"
    by (rule demo_categorization_shopping) simp
  have added: "[stored_row ?lib (demo_dict ''t1'') ?c]
                 = map (\<lambda>i. stored_row ?lib ([demo_dict ''t1''] ! i)
                         (categorization_of ?lib ([demo_dict ''t1''] ! i) (requests ?w + i)))
                       [0..<length [demo_dict ''t1'']]"
    by (simp add: c)
  have pushed: "[demo_row ''t0'' False, stored_row ?lib (demo_dict ''t1'') ?c]
                  = filter (\<lambda>r. \<not> synced_to_sheets r) (store ?w)
                    @ [stored_row ?lib (demo_dict ''t1'') ?c]"
    by (simp add: demo_row_def)
  note inst = sync_pushes_all_unsynced_rows[OF run[unfolded r] demo_feed_one new ne mirror
                added pushed]
  have 1: "stats ''new_transactions'' = Some (PInt 1)" using inst by simp
  have 2: "stats ''synced_to_sheets'' = Some (PInt 2)" using inst by simp
  have 3: "sheet w' =
          [map PStr [''Date'', ''Name'', ''Merchant'', ''Amount'', ''Primary Category'',
                     ''Subcategory'', ''Description'', ''Confidence'', ''Transaction ID''],
           [PStr ''2024-01-05'', PStr ''Bakery'', PNone, PFloat 3, PStr ''Food & Dining'',
            PStr ''Bakery'', PNone, PFloat 0.8, PStr ''t0''],
           [PStr ''2024-01-05'', PStr ''Book shop'', PNone, PFloat 12.5, PStr ''Shopping'',
            PStr ''Books'', PStr ''Book shop'', PFloat 0.9, PStr ''t1'']]"
    using inst[THEN conjunct1]
    by (simp add: demo_row_def stored_row_def demo_dict_def dict_get_def demo_env_def)
  have 4: "map synced_to_sheets (store w') = [True, True]"
    using inst[THEN conjunct2, THEN conjunct1] by simp
  have 5: "map transaction_id (store w') = [PStr ''t0'', PStr ''t1'']"
    using inst[THEN conjunct2, THEN conjunct1]
    by (simp add: demo_row_def stored_row_def demo_dict_def dict_get_def)
  show ?thesis using run[unfolded r] 1 2 3 4 5
    by (intro exI[of _ stats] exI[of _ w'] conjI)
qed

section \<open>Where the code departs from the specification\<close>

lemma construction_failure_is_skipped:
  "make_row lib tx = Inl e \<Longrightarrow> store_rows lib (tx # txs) = store_rows lib txs"
  by simp

text \<open>
  Claim C9 wants the six fields \<open>total_fetched\<close>, \<open>new_transactions\<close>, \<open>categorized\<close>,
  \<open>average_confidence\<close>, \<open>categories_used\<close> and \<open>synced_to_sheets\<close> in the statistics of
  every completed run. With an empty feed the run returns the four zero fields only, and
  the summary that \<open>main\<close> prints from them raises \<open>KeyError\<close>.
\<close>

theorem empty_feed_statistics_lack_fields:
  "fetch_and_process_transactions (demo_env (\<lambda>n. Inl ApiError) [] None None) True empty_world
     = (Inr (short_stats 0), empty_world)
   \<and> short_stats 0 ''total_fetched'' = Some (PInt 0)
   \<and> short_stats 0 ''new_transactions'' = Some (PInt 0)
   \<and> short_stats 0 ''categorized'' = Some (PInt 0)
   \<and> short_stats 0 ''synced_to_sheets'' = Some (PInt 0)
   \<and> short_stats 0 ''average_confidence'' = None
   \<and> short_stats 0 ''categories_used'' = None
   \<and> print_summary (short_stats 0) = Inl KeyError"
proof -
  have "get_all_transactions_since (demo_env (\<lambda>n. Inl ApiError) [] None None) = Inr []"
    by (simp add: get_all_transactions_since_def get_transactions_def demo_env_def)
  then have "fetch_and_process_transactions (demo_env (\<lambda>n. Inl ApiError) [] None None) True
               empty_world = (Inr (short_stats 0), empty_world)"
    by (rule run_empty_feed)
  then show ?thesis
    by (simp add: short_stats_def print_summary_def dict_index_def)
qed

lemma run_store_cases:
  assumes "fetch_and_process_transactions lib sync w = (r, w')"
  shows "\<exists>added. store w' = store w @ added \<or> store w' = map mark_synced (store w @ added)"
proof (cases rule: run_outcomes[of lib sync w])
  case (fetch_error e)
  with assms have "store w' = store w @ []" by simp
  then show ?thesis by blast
next
  case empty_feed
  with assms have "store w' = store w @ []" by simp
  then show ?thesis by blast
next
  case (nothing_new txs)
  with assms have "store w' = store w @ []" by simp
  then show ?thesis by blast
next
  case (commit_error txs new cats n e)
  with assms have "store w' = store w @ []" by auto
  then show ?thesis by blast
next
  case (complete txs new cats n table sy)
  have table: "table = store w @ fst (store_rows lib cats)"
    using complete(7) by (rule commit_table)
  have w': "w' = snd sy" using complete(9) assms by simp
  have "store w' = table \<or> store w' = map mark_synced table"
    unfolding w' complete(8)
    using sync_step_cases[of lib "w\<lparr>store := table, requests := n\<rparr>"] by auto
  then show ?thesis unfolding table by blast
qed

lemma synced_flag_never_reset:
  assumes "fetch_and_process_transactions lib sync w = (r, w')"
    and "i < length (store w)" and "synced_to_sheets (store w ! i)"
  shows "i < length (store w') \<and> synced_to_sheets (store w' ! i)
         \<and> transaction_id (store w' ! i) = transaction_id (store w ! i)"
proof -
  from run_store_cases[OF assms(1)] obtain added where
    "store w' = store w @ added \<or> store w' = map mark_synced (store w @ added)"
    by blast
  then show ?thesis
  proof
    assume "store w' = store w @ added"
    with assms(2,3) show ?thesis by (simp add: nth_append)
  next
    assume "store w' = map mark_synced (store w @ added)"
    with assms(2,3) show ?thesis by (simp add: nth_append mark_synced_fields)
  qed
qed

lemma mirror_failure_leaves_rows_unsynced:
  assumes "fst (sync_transactions lib (map sheets_data (unsynced_rows (store w))) (sheet w))
             = Some e"
  shows "fst (sync_step lib w) = 0 \<and> store (snd (sync_step lib w)) = store w"
  using assms
  by (auto simp: sync_step_def unsynced_rows_def Let_def split: prod.splits option.splits)

text \<open>
  Claim C4 wants a row marked synced only after its data was sent in a successful push.
  Without a configured spreadsheet \<open>sync_transactions\<close> returns before it sends anything,
  and the run marks the new row synced and counts it: the sheet is still empty, the row's
  flag is true and \<open>synced_to_sheets\<close> is 1.
\<close>

theorem marked_synced_without_push:
  "map synced_to_sheets (store (snd (fetch_and_process_transactions
       (demo_env (\<lambda>n. Inr json_shopping) [demo_plaid ''t1''] None None) True empty_world)))
     = [True]
   \<and> sheet (snd (fetch_and_process_transactions
       (demo_env (\<lambda>n. Inr json_shopping) [demo_plaid ''t1''] None None) True empty_world)) = []
   \<and> (case fst (fetch_and_process_transactions
       (demo_env (\<lambda>n. Inr json_shopping) [demo_plaid ''t1''] None None) True empty_world) of
         Inl e \<Rightarrow> False
       | Inr stats \<Rightarrow> stats ''synced_to_sheets'' = Some (PInt 1))"
  by (simp add: pipeline_defs categorize_defs demo_defs Let_def)

text \<open>
  Claim C6 wants a row that cannot be persisted to be skipped while the others are
  stored. The handler of step 4 covers the construction of a row; the inserts run in
  \<open>db.commit()\<close>, after the loop. Two new transactions with the same id both pass the
  loop, the commit raises \<open>IntegrityError\<close>, the run ends with that exception and no row
  is stored.
\<close>

theorem duplicate_id_aborts_run:
  "fetch_and_process_transactions
     (demo_env (\<lambda>n. Inr json_shopping) [demo_plaid ''t1'', demo_plaid ''t1''] None None)
     True empty_world
   = (Inl IntegrityError, empty_world\<lparr>requests := 2\<rparr>)
   \<and> store (empty_world\<lparr>requests := 2\<rparr>) = []"
  by (simp add: pipeline_defs categorize_defs demo_defs Let_def)

end
